theory Spec2Isabelle
  imports Complex_Main "HOL-Library.Sublist"
begin

section \<open>Python values used by the agent\<close>

text \<open>
  The agent (\<^verbatim>\<open>src/agents/nodes.py\<close>, \<^verbatim>\<open>routers.py\<close>, \<^verbatim>\<open>graph.py\<close>) works on
  dictionaries of optional strings.  A field read with \<^verbatim>\<open>d.get(k)\<close> is a
  \<open>string option\<close>; Python's truth test \<^verbatim>\<open>if d.get(k)\<close> holds for a value that is
  neither \<^verbatim>\<open>None\<close> nor the empty string.
\<close>

definition truthy :: "string option \<Rightarrow> bool" where
  "truthy v = (case v of None \<Rightarrow> False | Some s \<Rightarrow> s \<noteq> [])"

text \<open>\<^verbatim>\<open>sep.join(xs)\<close>\<close>

fun join :: "string \<Rightarrow> string list \<Rightarrow> string" where
  "join sep [] = []"
| "join sep [x] = x"
| "join sep (x # y # ys) = x @ sep @ join sep (y # ys)"

text \<open>\<^verbatim>\<open>str(n)\<close> for an integer: decimal digits, with a minus sign below zero.\<close>

definition digit_char :: "nat \<Rightarrow> char" where
  "digit_char n = ''0123456789'' ! (n mod 10)"

fun str_nat :: "nat \<Rightarrow> string" where
  "str_nat n = (if n < 10 then [digit_char n] else str_nat (n div 10) @ [digit_char n])"

definition str_int :: "int \<Rightarrow> string" where
  "str_int k = (if k < 0 then CHR ''-'' # str_nat (nat (- k)) else str_nat (nat k))"

text \<open>\<^verbatim>\<open>xs[-n:]\<close>: the last \<open>n\<close> elements.\<close>

definition last_n :: "nat \<Rightarrow> 'a list \<Rightarrow> 'a list" where
  "last_n n xs = drop (length xs - n) xs"

section \<open>Data model\<close>

text \<open>
  \<^verbatim>\<open>TravelIntent\<close> (\<^verbatim>\<open>src/models/schemas.py\<close>), as the dictionary \<^verbatim>\<open>intent_data\<close>
  that \<^verbatim>\<open>intent_node\<close> patches.  The intent tag stays a string, as in the code, which
  compares it with string literals.
\<close>

record travel_intent =
  intent :: string
  origin :: "string option"
  destination :: "string option"
  check_in :: "string option"
  check_out :: "string option"
  travelers :: int
  reasoning :: string

text \<open>
  A flight offer of the provider, reduced to what \<^verbatim>\<open>synthesis_node\<close> reads: the first
  segment of the first itinerary and the price block.  \<open>price_total\<close> is the value of
  \<^verbatim>\<open>float(f["price"]["total"])\<close>; the type \<open>'f\<close> stands for Python's floats.
\<close>

record 'f flight_offer =
  carrierCode :: string
  number :: string
  departure_at :: string
  departure_iataCode :: string
  arrival_iataCode :: string
  price_total :: 'f
  price_currency :: string

text \<open>
  A hotel dictionary of the city lookup (also the \<^verbatim>\<open>hotel\<close> entry of an offer record).
  A field is \<open>None\<close> when the key is missing.
\<close>

record hotel_info =
  hotelId :: "string option"
  name :: "string option"
  address_cityName :: "string option"
  distance_value :: "string option"
  distance_unit :: "string option"

datatype cancel_description = DescDict "string option" | DescOther string

record 'f hotel_offer =
  price_currency_opt :: "string option"
  price_total_opt :: "'f option"
  price_base_opt :: "'f option"
  room_category :: "string option"
  room_beds :: "int option"
  room_bedType :: "string option"
  room_description_text :: "string option"
  checkInDate :: "string option"
  checkOutDate :: "string option"
  paymentType :: "string option"
  cancellation_type :: "string option"
  cancellation_description :: "cancel_description option"

text \<open>An element of \<^verbatim>\<open>state.hotels\<close>.\<close>

record 'f hotel_entry =
  hotel :: "hotel_info option"
  available :: bool
  offers :: "'f hotel_offer list"

text \<open>\<^verbatim>\<open>AgentState\<close> (\<^verbatim>\<open>src/models/state.py\<close>); a history message is a (role, content) pair.\<close>

record 'f agent_state =
  query :: string
  conversation_history :: "(string \<times> string) list"
  state_intent :: "travel_intent option"
  flights :: "'f flight_offer list option"
  hotels :: "'f hotel_entry list option"
  response :: "string option"
  use_web_search :: bool
  search_query :: "string option"

section \<open>External collaborators\<close>

text \<open>
  The provider's \<^verbatim>\<open>ResponseError\<close>: the list under the key \<^verbatim>\<open>errors\<close> of
  \<^verbatim>\<open>e.response.result\<close> (empty when the response, the result or the key is absent)
  and \<^verbatim>\<open>str(e)\<close>.
\<close>

record error_entry =
  code :: "int option"
  status :: "int option"

record response_error =
  errors :: "error_entry list"
  error_str :: string

text \<open>What a call of the provider does: it returns, raises \<^verbatim>\<open>ResponseError\<close>, or raises
  another exception (with its \<^verbatim>\<open>str\<close>).\<close>

datatype 'a outcome =
  Returned 'a
| RaisedResponseError response_error
| RaisedException string

text \<open>A result item of a JSON search backend, and a result block of the HTML backend.\<close>

record search_result =
  title :: "string option"
  url :: "string option"
  content :: "string option"

record result_block =
  title_elem :: "(string \<times> string option) option"
  snippet_elem :: "string option"

text \<open>
  An HTTP call raises (timeout, connection error) or returns a status code with a body.
  For \<^verbatim>\<open>requests.get\<close> the body is the list \<^verbatim>\<open>response.json().get('results', [])\<close>,
  \<open>None\<close> when \<^verbatim>\<open>json()\<close> raises; for \<^verbatim>\<open>requests.post\<close> it is the list of
  \<^verbatim>\<open>result__body\<close> blocks that the HTML parser finds (at most 5 are asked for).
\<close>

datatype 'b http_outcome = HttpRaised | HttpResponse int 'b

text \<open>
  Everything the nodes call outside the repository is a field of the environment, so a
  theorem about a node holds for every behaviour of the collaborators:
  the language model, the clock and \<^verbatim>\<open>datetime\<close> (\<open>'t\<close> is a parsed datetime,
  \<open>date_ordinal\<close> its \<^verbatim>\<open>.date()\<close> as a day number, which is all the code compares),
  the provider, the HTTP client, float arithmetic (\<open>ftrunc\<close> is \<^verbatim>\<open>int(x)\<close>) and
  \<^verbatim>\<open>str.title\<close>.  \<open>EUR_TO_INR\<close> is the constant of \<^verbatim>\<open>src/config/settings.py\<close> (107.19).
\<close>

record ('t, 'f) env =
  llm_invoke :: "string \<Rightarrow> string \<Rightarrow> travel_intent option"
  fromisoformat :: "string \<Rightarrow> 't option"
  date_ordinal :: "'t \<Rightarrow> int"
  today_ordinal :: int
  strftime :: "'t \<Rightarrow> string \<Rightarrow> string"
  search_flights :: "string \<Rightarrow> string \<Rightarrow> string \<Rightarrow> int \<Rightarrow> 'f flight_offer list outcome"
  search_hotels_by_city :: "string \<Rightarrow> hotel_info list outcome"
  search_hotel_offers :: "string \<Rightarrow> int \<Rightarrow> string \<Rightarrow> string \<Rightarrow> 'f hotel_entry list outcome"
  get_location_info :: "string \<Rightarrow> string option"
  requests_get :: "string \<Rightarrow> string \<Rightarrow> search_result list option http_outcome"
  requests_post :: "string \<Rightarrow> string \<Rightarrow> result_block list http_outcome"
  fmul :: "'f \<Rightarrow> 'f \<Rightarrow> 'f"
  ftrunc :: "'f \<Rightarrow> int"
  float_of_int :: "int \<Rightarrow> 'f"
  EUR_TO_INR :: 'f
  str_title :: "string \<Rightarrow> string"

section \<open>Intent extraction and validation (\<^verbatim>\<open>intent_node\<close>)\<close>

text \<open>The context block of the prompt: the last four messages of the history.\<close>

definition build_context :: "(string \<times> string) list \<Rightarrow> string" where
  "build_context history =
     (if history \<noteq> [] then
        ''\<newline>\<newline>Previous conversation:\<newline>'' @
        concat (map (\<lambda>(role, content). role @ '': '' @ content @ ''\<newline>'') (last_n 4 history))
      else [])"

text \<open>Lines 71-75: a hotel search whose city was put into \<^verbatim>\<open>origin\<close>.\<close>

definition hotel_fix :: "string \<Rightarrow> travel_intent \<Rightarrow> travel_intent" where
  "hotel_fix original_intent d =
     (if original_intent = ''hotel_search'' then
        (if truthy (origin d) \<and> \<not> truthy (destination d)
         then d\<lparr>destination := origin d, origin := None\<rparr>
         else d)
      else d)"

text \<open>Lines 79-97, 107-116, 125-137: the list \<^verbatim>\<open>missing\<close>, appended to in source order.\<close>

definition flight_missing :: "travel_intent \<Rightarrow> string list" where
  "flight_missing d =
     (if \<not> truthy (origin d) then [''departure city/airport''] else []) @
     (if \<not> truthy (destination d) then [''arrival city/airport''] else []) @
     (if truthy (origin d) \<and> truthy (destination d) \<and> origin d = destination d
      then [''arrival city/airport (cannot be same as departure)''] else []) @
     (if \<not> truthy (check_in d) then [''departure/travel date''] else [])"

definition hotel_missing :: "travel_intent \<Rightarrow> string list" where
  "hotel_missing d =
     (if \<not> truthy (destination d) then [''destination city''] else []) @
     (if \<not> truthy (check_in d) then [''check-in date''] else []) @
     (if \<not> truthy (check_out d) then [''check-out date''] else [])"

definition both_missing :: "travel_intent \<Rightarrow> string list" where
  "both_missing d =
     (if \<not> truthy (origin d) then [''departure city/airport''] else []) @
     (if \<not> truthy (destination d) then [''destination city''] else []) @
     (if \<not> truthy (check_in d) then [''check-in/departure date''] else []) @
     (if \<not> truthy (check_out d) then [''check-out date''] else [])"

text \<open>Lines 100-102, 118-120, 139-141: the downgrade to \<^verbatim>\<open>clarify\<close>.\<close>

definition force_clarify :: "string list \<Rightarrow> travel_intent \<Rightarrow> travel_intent" where
  "force_clarify missing d =
     (if missing \<noteq> []
      then d\<lparr>intent := ''clarify'', reasoning := ''Missing: '' @ join '', '' missing\<rparr>
      else d)"

definition flight_validation :: "string \<Rightarrow> travel_intent \<Rightarrow> travel_intent" where
  "flight_validation original_intent d =
     (if original_intent = ''flight_search'' then force_clarify (flight_missing d) d else d)"

definition hotel_validation :: "string \<Rightarrow> travel_intent \<Rightarrow> travel_intent" where
  "hotel_validation original_intent d =
     (if original_intent = ''hotel_search'' then force_clarify (hotel_missing d) d else d)"

definition both_validation :: "string \<Rightarrow> travel_intent \<Rightarrow> travel_intent" where
  "both_validation original_intent d =
     (if original_intent = ''both'' then force_clarify (both_missing d) d else d)"

text \<open>Lines 77-142: the three completeness checks, each keyed on the intent as extracted.\<close>

definition strict_validation :: "string \<Rightarrow> travel_intent \<Rightarrow> travel_intent" where
  "strict_validation original_intent d =
     both_validation original_intent
       (hotel_validation original_intent (flight_validation original_intent d))"

text \<open>Lines 144-153: the past-date guard; \<open>None\<close> from the parser is \<^verbatim>\<open>ValueError\<close>.\<close>

definition past_date_guard :: "('t, 'f) env \<Rightarrow> travel_intent \<Rightarrow> travel_intent" where
  "past_date_guard env d =
     (case check_in d of
        None \<Rightarrow> d
      | Some s \<Rightarrow>
          if s = [] then d
          else (case fromisoformat env s of
                  Some check_in_date \<Rightarrow>
                    if date_ordinal env check_in_date < today_ordinal env
                    then d\<lparr>intent := ''clarify'',
                           reasoning := ''Check-in/departure date cannot be in the past''\<rparr>
                    else d
                | None \<Rightarrow>
                    d\<lparr>intent := ''clarify'',
                      reasoning := ''Invalid date format. Please provide a valid date.''\<rparr>))"

text \<open>Lines 69-153: the whole post-processing of the extracted intent.\<close>

definition post_process :: "('t, 'f) env \<Rightarrow> travel_intent \<Rightarrow> travel_intent" where
  "post_process env raw =
     (let original_intent = intent raw in
      past_date_guard env
        (strict_validation original_intent (hotel_fix original_intent raw)))"

text \<open>\<^verbatim>\<open>intent_node\<close>: \<open>None\<close> when the language model raises (nothing catches it).\<close>

definition intent_node :: "('t, 'f) env \<Rightarrow> 'f agent_state \<Rightarrow> 'f agent_state option" where
  "intent_node env state =
     (case llm_invoke env (build_context (conversation_history state)) (query state) of
        None \<Rightarrow> None
      | Some raw \<Rightarrow> Some (state\<lparr>state_intent := Some (post_process env raw)\<rparr>))"

section \<open>Symbols and small helpers\<close>

text \<open>
  Python strings are modelled as \<open>string\<close>.  The fixed non-ASCII symbols of the message
  templates are written as their UTF-8 bytes; slicing and \<^verbatim>\<open>len\<close> of a text count list
  elements, as Python counts characters.
\<close>

definition sym_bullet :: string where
  "sym_bullet = [CHR 0xE2, CHR 0x80, CHR 0xA2]"

definition sym_rupee :: string where
  "sym_rupee = [CHR 0xE2, CHR 0x82, CHR 0xB9]"

definition sym_info :: string where
  "sym_info = [CHR 0xE2, CHR 0x84, CHR 0xB9, CHR 0xEF, CHR 0xB8, CHR 0x8F]"

definition sym_arrow :: string where
  "sym_arrow = [CHR 0xE2, CHR 0x86, CHR 0x92]"

definition sym_warning :: string where
  "sym_warning = [CHR 0xE2, CHR 0x9A, CHR 0xA0, CHR 0xEF, CHR 0xB8, CHR 0x8F]"

definition sym_airplane :: string where
  "sym_airplane = [CHR 0xE2, CHR 0x9C, CHR 0x88, CHR 0xEF, CHR 0xB8, CHR 0x8F]"

definition sym_check :: string where
  "sym_check = [CHR 0xE2, CHR 0x9C, CHR 0x93]"

definition sym_hotel :: string where
  "sym_hotel = [CHR 0xF0, CHR 0x9F, CHR 0x8F, CHR 0xA8]"

definition sym_label :: string where
  "sym_label = [CHR 0xF0, CHR 0x9F, CHR 0x8F, CHR 0xB7, CHR 0xEF, CHR 0xB8, CHR 0x8F]"

definition sym_bulb :: string where
  "sym_bulb = [CHR 0xF0, CHR 0x9F, CHR 0x92, CHR 0xA1]"

definition sym_money :: string where
  "sym_money = [CHR 0xF0, CHR 0x9F, CHR 0x92, CHR 0xB0]"

definition sym_calendar :: string where
  "sym_calendar = [CHR 0xF0, CHR 0x9F, CHR 0x93, CHR 0x85]"

definition sym_clipboard :: string where
  "sym_clipboard = [CHR 0xF0, CHR 0x9F, CHR 0x93, CHR 0x8B]"

definition sym_pin :: string where
  "sym_pin = [CHR 0xF0, CHR 0x9F, CHR 0x93, CHR 0x8D]"

definition sym_ruler :: string where
  "sym_ruler = [CHR 0xF0, CHR 0x9F, CHR 0x93, CHR 0x8F]"

definition sym_memo :: string where
  "sym_memo = [CHR 0xF0, CHR 0x9F, CHR 0x93, CHR 0x9D]"

definition sym_refresh :: string where
  "sym_refresh = [CHR 0xF0, CHR 0x9F, CHR 0x94, CHR 0x84]"

definition sym_search :: string where
  "sym_search = [CHR 0xF0, CHR 0x9F, CHR 0x94, CHR 0x8D]"

definition sym_link :: string where
  "sym_link = [CHR 0xF0, CHR 0x9F, CHR 0x94, CHR 0x97]"

definition sym_bed :: string where
  "sym_bed = [CHR 0xF0, CHR 0x9F, CHR 0x9B, CHR 0x8F, CHR 0xEF, CHR 0xB8, CHR 0x8F]"

text \<open>How an optional string is rendered inside an f-string.\<close>

definition py_str :: "string option \<Rightarrow> string" where
  "py_str v = (case v of None \<Rightarrow> ''None'' | Some s \<Rightarrow> s)"

text \<open>\<^verbatim>\<open>d.get(k, default)\<close>, the field being \<open>None\<close> when the key is missing.\<close>

definition get_default :: "'a option \<Rightarrow> 'a \<Rightarrow> 'a" where
  "get_default v d = (case v of None \<Rightarrow> d | Some x \<Rightarrow> x)"

text \<open>\<^verbatim>\<open>enumerate(xs, 1)\<close>\<close>

definition enumerate1 :: "'a list \<Rightarrow> (nat \<times> 'a) list" where
  "enumerate1 xs = zip [1 ..< Suc (length xs)] xs"

section \<open>Routers (\<^verbatim>\<open>src/agents/routers.py\<close>)\<close>

text \<open>The nodes of the graph of \<^verbatim>\<open>create_agent\<close>, with its \<^verbatim>\<open>END\<close>.\<close>

datatype node = Intent | Flight_tool | Hotel_tool | Clarify | Synthesis | Web_search_fallback | END

definition router :: "'f agent_state \<Rightarrow> node" where
  "router state =
     (case state_intent state of
        None \<Rightarrow> Clarify
      | Some i \<Rightarrow>
          if intent i = ''flight_search'' then Flight_tool
          else if intent i = ''hotel_search'' then Hotel_tool
          else if intent i = ''both'' then Flight_tool
          else if intent i = ''follow_up'' then Synthesis
          else Clarify)"

definition flight_tool_router :: "'f agent_state \<Rightarrow> node" where
  "flight_tool_router state =
     (if use_web_search state then Web_search_fallback
      else (case state_intent state of
              None \<Rightarrow> Synthesis
            | Some i \<Rightarrow> if intent i = ''both'' then Hotel_tool else Synthesis))"

section \<open>Airport cache (\<^verbatim>\<open>src/utils/cache.py\<close>)\<close>

text \<open>
  The process-wide dictionary is threaded through the nodes.  \<open>get_location_info\<close> is
  the city name \<^verbatim>\<open>loc_data[0]["address"]["cityName"]\<close> of the provider's answer, \<open>None\<close>
  when the call or the indexing raises.
\<close>

type_synonym city_cache = "string \<Rightarrow> string option"

definition get_city_name ::
  "('t, 'f) env \<Rightarrow> city_cache \<Rightarrow> string \<Rightarrow> string \<times> city_cache" where
  "get_city_name env cache iata_code =
     (case cache iata_code of
        Some city \<Rightarrow> (city, cache)
      | None \<Rightarrow>
          (case get_location_info env iata_code of
             Some city \<Rightarrow> (city, cache(iata_code \<mapsto> city))
           | None \<Rightarrow> (iata_code, cache)))"

section \<open>Flight search (\<^verbatim>\<open>flight_tool\<close>)\<close>

text \<open>Lines 214-219: the first reported error is the outage code or status.\<close>

definition is_outage :: "response_error \<Rightarrow> bool" where
  "is_outage e =
     (case errors e of
        [] \<Rightarrow> False
      | first # _ \<Rightarrow> code first = Some 141 \<or> status first = Some 500)"

text \<open>Lines 222-239: the update that arms the web-search fallback.\<close>

definition outage_update ::
  "('t, 'f) env \<Rightarrow> city_cache \<Rightarrow> 'f agent_state \<Rightarrow> travel_intent \<Rightarrow> 'f agent_state \<times> city_cache" where
  "outage_update env cache state i =
     (let (origin_city, cache1) =
            (if truthy (origin i) then get_city_name env cache (py_str (origin i))
             else (py_str (origin i), cache));
          (dest_city, cache2) =
            (if truthy (destination i) then get_city_name env cache1 (py_str (destination i))
             else (py_str (destination i), cache1));
          date_str =
            (case check_in i of
               None \<Rightarrow> py_str (check_in i)
             | Some s \<Rightarrow>
                 (case fromisoformat env s of
                    Some date_obj \<Rightarrow> strftime env date_obj ''%B %d, %Y''
                  | None \<Rightarrow> py_str (check_in i)))
      in (state\<lparr>flights := Some [], response := None, use_web_search := True,
                search_query := Some (''flights from '' @ origin_city @ '' to '' @ dest_city @ '' on '' @ date_str @ '' price'')\<rparr>,
          cache2))"

definition flight_tool ::
  "('t, 'f) env \<Rightarrow> city_cache \<Rightarrow> 'f agent_state \<Rightarrow> 'f agent_state \<times> city_cache" where
  "flight_tool env cache state =
     (case state_intent state of
        None \<Rightarrow> (state\<lparr>response := Some ''Internal error: missing intent''\<rparr>, cache)
      | Some i \<Rightarrow>
          if \<not> truthy (origin i) then
            (state\<lparr>flights := Some [], response := Some ''Missing origin airport code''\<rparr>, cache)
          else if \<not> truthy (destination i) then
            (state\<lparr>flights := Some [], response := Some ''Missing destination airport code''\<rparr>, cache)
          else if \<not> truthy (check_in i) then
            (state\<lparr>flights := Some [], response := Some ''Missing departure date''\<rparr>, cache)
          else
            (case search_flights env (py_str (origin i)) (py_str (destination i))
                    (py_str (check_in i)) (travelers i) of
               Returned res_data \<Rightarrow> (state\<lparr>flights := Some res_data\<rparr>, cache)
             | RaisedResponseError e \<Rightarrow>
                 if is_outage e then outage_update env cache state i
                 else (state\<lparr>flights := Some [],
                              response := Some (''Flight search error: '' @ error_str e)\<rparr>, cache)
             | RaisedException msg \<Rightarrow>
                 (state\<lparr>flights := Some [],
                         response := Some (''Unexpected flight error: '' @ msg)\<rparr>, cache)))"

section \<open>Web-search fallback (\<^verbatim>\<open>web_search_fallback_node\<close>)\<close>

record flight_info_item =
  info_title :: string
  info_url :: string
  info_snippet :: string

definition searxng_instances :: "string list" where
  "searxng_instances =
     [''https://searx.be/search'',
      ''https://search.bus-hit.me/search'',
      ''https://searx.tiekoetter.com/search'',
      ''https://paulgo.io/search'']"

definition ddg_url :: string where
  "ddg_url = ''https://html.duckduckgo.com/html/''"

text \<open>Lines 342-350 and 401-413: the entry kept for a result.\<close>

definition searx_info :: "search_result \<Rightarrow> flight_info_item" where
  "searx_info result =
     \<lparr>info_title = get_default (title result) ''No title'',
      info_url = get_default (url result) [],
      info_snippet = get_default (content result) []\<rparr>"

definition ddg_info :: "result_block \<Rightarrow> flight_info_item list" where
  "ddg_info result =
     (case title_elem result of
        None \<Rightarrow> []
      | Some (text, href) \<Rightarrow>
          [\<lparr>info_title = text,
            info_url = get_default href [],
            info_snippet = get_default (snippet_elem result) []\<rparr>])"

text \<open>Lines 352-375 (and 416-439, the same text): the rendered answer.\<close>

definition render_item :: "nat \<times> flight_info_item \<Rightarrow> string" where
  "render_item p =
     (case p of (idx, info) \<Rightarrow>
        (let snippet = (if info_snippet info \<noteq> [] then take 200 (info_snippet info)
                        else ''No description available'')
         in ''\<newline>**'' @ str_nat idx @ ''. '' @ info_title info @ ''**\<newline>'' @ snippet @ ''...\<newline>'' @ sym_link @ '' '' @ info_url info @ ''\<newline>\<newline>''))"

definition render_results :: "string \<Rightarrow> flight_info_item list \<Rightarrow> string" where
  "render_results squery flight_info =
     (''\<newline>'' @ sym_warning @ '' **Note: The live flight booking API is temporarily unavailable.**\<newline>\<newline>'' @ sym_search @ '' **Here'' @ [CHR 0x27] @ ''s what I found from web search for '' @ [CHR 0x22] @ squery @ [CHR 0x22] @ '':**\<newline>\<newline>'') @
     concat (map render_item (enumerate1 flight_info)) @
     (''\<newline>'' @ sym_bulb @ '' **Recommendations:**\<newline>- Visit the links above for real-time pricing and availability\<newline>- Check airline websites directly for best deals\<newline>- Compare prices on multiple booking platforms\<newline>- The live API should be back online soon - try again later!\<newline>\<newline>'' @ sym_warning @ '' **Disclaimer:** The information above is from web search results and may not reflect current prices or availability. These are estimated options found on the internet.\<newline>'')"

text \<open>
  Lines 327-381: the loop over the SearXNG instances.  The second component is the list
  of instances requested, in the order of the requests.
\<close>

fun searxng_loop :: "('t, 'f) env \<Rightarrow> string \<Rightarrow> string list \<Rightarrow> string option \<times> string list" where
  "searxng_loop env squery [] = (None, [])"
| "searxng_loop env squery (searxng_url # rest) =
     (case requests_get env searxng_url squery of
        HttpRaised \<Rightarrow>
          (case searxng_loop env squery rest of (r, tried) \<Rightarrow> (r, searxng_url # tried))
      | HttpResponse status_code body \<Rightarrow>
          if status_code = 200 then
            (case body of
               None \<Rightarrow>
                 (case searxng_loop env squery rest of (r, tried) \<Rightarrow> (r, searxng_url # tried))
             | Some results \<Rightarrow>
                 if results \<noteq> [] then
                   (Some (render_results squery (map searx_info (take 5 results))),
                    [searxng_url])
                 else
                   (case searxng_loop env squery rest of (r, tried) \<Rightarrow> (r, searxng_url # tried)))
          else
            (case searxng_loop env squery rest of (r, tried) \<Rightarrow> (r, searxng_url # tried)))"

text \<open>Lines 385-443: the HTML backend, tried last.\<close>

definition ddg_search :: "('t, 'f) env \<Rightarrow> string \<Rightarrow> string option" where
  "ddg_search env squery =
     (case requests_post env ddg_url squery of
        HttpRaised \<Rightarrow> None
      | HttpResponse status_code blocks \<Rightarrow>
          if status_code = 200 then
            (let results = take 5 blocks in
             if results \<noteq> [] then
               (let flight_info = concat (map ddg_info results) in
                if flight_info \<noteq> [] then Some (render_results squery flight_info)
                else None)
             else None)
          else None)"

text \<open>\<^verbatim>\<open>get_fallback_message\<close>\<close>

definition get_fallback_message ::
  "('t, 'f) env \<Rightarrow> city_cache \<Rightarrow> 'f agent_state \<Rightarrow> string \<times> city_cache" where
  "get_fallback_message env cache state =
     (let (origin_city, cache1) =
            (case state_intent state of
               None \<Rightarrow> (''departure city'', cache)
             | Some i \<Rightarrow>
                 if truthy (origin i) then get_city_name env cache (py_str (origin i))
                 else (''departure city'', cache));
          (dest_city, cache2) =
            (case state_intent state of
               None \<Rightarrow> (''destination city'', cache1)
             | Some i \<Rightarrow>
                 if truthy (destination i) then get_city_name env cache1 (py_str (destination i))
                 else (''destination city'', cache1));
          date =
            (case state_intent state of
               None \<Rightarrow> ''your selected date''
             | Some i \<Rightarrow> py_str (check_in i))
      in (''\<newline>'' @ sym_warning @ '' **The flight booking API is temporarily unavailable and web search is also having issues.**\<newline>\<newline>'' @ sym_clipboard @ '' **Your Search Details:**\<newline>- From: '' @ origin_city @ ''\<newline>- To: '' @ dest_city @ ''\<newline>- Date: '' @ date @ ''\<newline>\<newline>'' @ sym_bulb @ '' **What you can do:**\<newline>1. **Visit these sites directly:**\<newline>   - Google Flights: https://www.google.com/flights\<newline>   - Skyscanner: https://www.skyscanner.com\<newline>   - Kayak: https://www.kayak.com\<newline>\<newline>2. **Check airline websites:**\<newline>   - Air India: https://www.airindia.in\<newline>   - IndiGo: https://www.goindigo.in\<newline>   - Vistara: https://www.airvistara.com\<newline>\<newline>3. **Try again later** - The API should be back online soon!\<newline>\<newline>'' @ sym_refresh @ '' I'' @ [CHR 0x27] @ ''ll be able to provide real-time flight data once the API is restored.\<newline>'',
          cache2))"

definition no_flights :: "'f agent_state \<Rightarrow> bool" where
  "no_flights state = (case flights state of None \<Rightarrow> True | Some fs \<Rightarrow> fs = [])"

definition web_search_fallback_node ::
  "('t, 'f) env \<Rightarrow> city_cache \<Rightarrow> 'f agent_state \<Rightarrow> 'f agent_state \<times> city_cache" where
  "web_search_fallback_node env cache state =
     (if no_flights state \<and> use_web_search state then
        (let squery = get_default (search_query state) [] in
         if squery = [] then
           (state\<lparr>response := Some ''Unable to search for flights at this time.''\<rparr>, cache)
         else
           (case fst (searxng_loop env squery searxng_instances) of
              Some response_text \<Rightarrow> (state\<lparr>response := Some response_text\<rparr>, cache)
            | None \<Rightarrow>
                (case ddg_search env squery of
                   Some response_text \<Rightarrow> (state\<lparr>response := Some response_text\<rparr>, cache)
                 | None \<Rightarrow>
                     (case get_fallback_message env cache state of
                        (message, cache') \<Rightarrow> (state\<lparr>response := Some message\<rparr>, cache')))))
      else (state, cache))"

section \<open>Hotel search (\<^verbatim>\<open>hotel_tool\<close>)\<close>

text \<open>
  Lines 486-510: the loop over the hotel identifiers.  Its effects are the offer requests
  sent to the provider and the back-off sleeps, logged in order; the result is the list
  \<^verbatim>\<open>valid_offers\<close>, or the text of an exception that is not a \<^verbatim>\<open>ResponseError\<close> and so
  leaves the loop.
\<close>

datatype hotel_event = OfferRequest string | BackoffSleep

fun offers_loop ::
  "('t, 'f) env \<Rightarrow> travel_intent \<Rightarrow> string list \<Rightarrow> 'f hotel_entry list \<Rightarrow>
     (string + 'f hotel_entry list) \<times> hotel_event list" where
  "offers_loop env i [] valid_offers = (Inr valid_offers, [])"
| "offers_loop env i (hotel_id # rest) valid_offers =
     (case search_hotel_offers env hotel_id (travelers i) (py_str (check_in i))
             (py_str (check_out i)) of
        Returned offer_data \<Rightarrow>
          if offer_data \<noteq> [] then
            (if 5 \<le> length (valid_offers @ offer_data)
             then (Inr (valid_offers @ offer_data), [OfferRequest hotel_id])
             else (case offers_loop env i rest (valid_offers @ offer_data) of
                     (r, events) \<Rightarrow> (r, OfferRequest hotel_id # events)))
          else (case offers_loop env i rest valid_offers of
                  (r, events) \<Rightarrow> (r, OfferRequest hotel_id # events))
      | RaisedResponseError e \<Rightarrow>
          if sublist ''429'' (error_str e)
          then (case offers_loop env i rest valid_offers of
                  (r, events) \<Rightarrow> (r, OfferRequest hotel_id # BackoffSleep # events))
          else (case offers_loop env i rest valid_offers of
                  (r, events) \<Rightarrow> (r, OfferRequest hotel_id # events))
      | RaisedException msg \<Rightarrow> (Inl msg, [OfferRequest hotel_id]))"

text \<open>Line 477: the identifiers of the first 30 hotels that have one.\<close>

definition hotel_ids :: "hotel_info list \<Rightarrow> string list" where
  "hotel_ids hotels_data = List.map_filter hotelId (take 30 hotels_data)"

definition basic_entry :: "hotel_info \<Rightarrow> 'f hotel_entry" where
  "basic_entry h = \<lparr>hotel = Some h, available = False, offers = []\<rparr>"

definition hotel_tool :: "('t, 'f) env \<Rightarrow> 'f agent_state \<Rightarrow> 'f agent_state" where
  "hotel_tool env state =
     (case state_intent state of
        None \<Rightarrow> state\<lparr>response := Some ''Internal error: missing intent''\<rparr>
      | Some i \<Rightarrow>
          if \<not> truthy (destination i) then
            state\<lparr>hotels := Some [], response := Some ''Missing destination city for hotel search''\<rparr>
          else if \<not> truthy (check_in i) \<or> \<not> truthy (check_out i) then
            state\<lparr>hotels := Some [],
                  response := Some ''Missing check-in or check-out dates for hotel search''\<rparr>
          else
            (case search_hotels_by_city env (py_str (destination i)) of
               RaisedResponseError e \<Rightarrow>
                 state\<lparr>hotels := Some [], response := Some (''Hotel search error: '' @ error_str e)\<rparr>
             | RaisedException msg \<Rightarrow>
                 state\<lparr>hotels := Some [], response := Some (''Unexpected hotel error: '' @ msg)\<rparr>
             | Returned hotels_data \<Rightarrow>
                 if hotels_data = [] then
                   state\<lparr>hotels := Some [],
                         response := Some (''No hotels found in city: '' @ py_str (destination i))\<rparr>
                 else if hotel_ids hotels_data = [] then
                   state\<lparr>hotels := Some [], response := Some ''Could not extract hotel IDs''\<rparr>
                 else
                   (case fst (offers_loop env i (hotel_ids hotels_data) []) of
                      Inl msg \<Rightarrow>
                        state\<lparr>hotels := Some [], response := Some (''Unexpected hotel error: '' @ msg)\<rparr>
                    | Inr valid_offers \<Rightarrow>
                        if valid_offers \<noteq> [] then state\<lparr>hotels := Some valid_offers\<rparr>
                        else
                          (let basic_hotels = map basic_entry (take 5 hotels_data) in
                           if basic_hotels \<noteq> [] then
                             state\<lparr>hotels := Some basic_hotels,
                                   response := Some (''Found '' @ str_nat (length basic_hotels) @ '' hotels in '' @ py_str (destination i) @ '', but no pricing/availability for your dates. Here are the hotels:'')\<rparr>
                           else
                             state\<lparr>hotels := Some [],
                                   response := Some (''No available hotel offers in '' @ py_str (destination i) @ '' for '' @ py_str (check_in i) @ '' to '' @ py_str (check_out i) @ ''.'')\<rparr>))))"

section \<open>Clarification (\<^verbatim>\<open>clarify_node\<close>)\<close>

definition clarify_node :: "'f agent_state \<Rightarrow> 'f agent_state" where
  "clarify_node state =
     (let reasoning = (case state_intent state of None \<Rightarrow> [] | Some i \<Rightarrow> reasoning i);
          origin = (case state_intent state of None \<Rightarrow> None | Some i \<Rightarrow> origin i);
          destination = (case state_intent state of None \<Rightarrow> None | Some i \<Rightarrow> destination i);
          check_in = (case state_intent state of None \<Rightarrow> None | Some i \<Rightarrow> check_in i);
          check_out = (case state_intent state of None \<Rightarrow> None | Some i \<Rightarrow> check_out i);
          response0 = ''I need more information to help you book your travel.\<newline>\<newline>'';
          response1 = (if reasoning \<noteq> [] then response0 @ ''**'' @ reasoning @ ''**\<newline>\<newline>''
                       else response0);
          has_info =
            (if truthy origin then [sym_check @ '' Departure: '' @ py_str origin] else []) @
            (if truthy destination then [sym_check @ '' Destination: '' @ py_str destination] else []) @
            (if truthy check_in then [sym_check @ '' Check-in/Departure date: '' @ py_str check_in] else []) @
            (if truthy check_out then [sym_check @ '' Check-out date: '' @ py_str check_out] else []);
          response2 =
            (if has_info \<noteq> [] then
               response1 @ ''**What I have:**\<newline>'' @
               concat (map (\<lambda>item. item @ ''\<newline>'') has_info) @ ''\<newline>''
             else response1);
          response3 =
            (if truthy origin \<and> \<not> truthy destination then
               response2 @ ''**What I need:**\<newline>'' @
               sym_bullet @ '' Destination/Arrival city (e.g., Delhi, Bangalore, Chennai)\<newline>'' @
               (if \<not> truthy check_in then sym_bullet @ '' Travel/Departure date (e.g., tomorrow, 25th January)\<newline>'' else []) @
               ''\<newline>**Example:** '' @ [CHR 0x27] @ ''to Delhi on 25th January'' @ [CHR 0x27] @ ''\<newline>''
             else if truthy destination \<and> \<not> truthy origin then
               response2 @ ''**What I need:**\<newline>'' @
               sym_bullet @ '' Departure city (e.g., Mumbai, Bangalore)\<newline>'' @
               (if \<not> truthy check_in then sym_bullet @ '' Travel date (e.g., tomorrow, 25th January)\<newline>'' else []) @
               ''\<newline>**Example:** '' @ [CHR 0x27] @ ''from Mumbai on 25th January'' @ [CHR 0x27] @ ''\<newline>''
             else
               response2 @ ''**For flight bookings, I need:**\<newline>'' @
               sym_bullet @ '' Departure city (e.g., Mumbai, BOM)\<newline>'' @
               sym_bullet @ '' Arrival city (e.g., Delhi, DEL)\<newline>'' @
               sym_bullet @ '' Travel date (e.g., tomorrow, 25th January)\<newline>\<newline>'' @
               ''**For hotel bookings, I need:**\<newline>'' @
               sym_bullet @ '' Destination city (e.g., Delhi, Mumbai)\<newline>'' @
               sym_bullet @ '' Check-in date (e.g., 25th January)\<newline>'' @
               sym_bullet @ '' Check-out date (e.g., 27th January, or '' @ [CHR 0x27] @ ''3 nights'' @ [CHR 0x27] @ '')\<newline>\<newline>'' @
               ''**Examples:**\<newline>'' @
               sym_bullet @ '' '' @ [CHR 0x27] @ ''Book a flight from Mumbai to Delhi on 25th January'' @ [CHR 0x27] @ ''\<newline>'' @
               sym_bullet @ '' '' @ [CHR 0x27] @ ''Book a hotel in Delhi from 25th to 27th January'' @ [CHR 0x27] @ ''\<newline>'' @
               sym_bullet @ '' '' @ [CHR 0x27] @ ''Flight and hotel to Bangalore next week for 3 nights'' @ [CHR 0x27] @ ''\<newline>'')
      in state\<lparr>response := Some response3\<rparr>)"

section \<open>Result synthesis (\<^verbatim>\<open>synthesis_node\<close>)\<close>

text \<open>What escapes a node: the language model's failure, \<^verbatim>\<open>ValueError\<close> of
  \<^verbatim>\<open>datetime.fromisoformat\<close> in the synthesis, and the graph's step limit.\<close>

datatype error = LLMError | ValueError | GraphRecursionError

text \<open>Lines 633-634: every flight price is multiplied by \<open>EUR_TO_INR\<close>.\<close>

definition flight_price_inr :: "('t, 'f) env \<Rightarrow> 'f flight_offer \<Rightarrow> int" where
  "flight_price_inr env f = ftrunc env (fmul env (price_total f) (EUR_TO_INR env))"

text \<open>Lines 624-646: one line per flight; the parse of the departure time may raise.\<close>

fun flight_lines ::
  "('t, 'f) env \<Rightarrow> city_cache \<Rightarrow> 'f flight_offer list \<Rightarrow> (error + string list) \<times> city_cache" where
  "flight_lines env cache [] = (Inr [], cache)"
| "flight_lines env cache (f # fs) =
     (let flight_code = carrierCode f @ '' '' @ number f in
      case fromisoformat env (departure_at f) of
        None \<Rightarrow> (Inl ValueError, cache)
      | Some dt \<Rightarrow>
          (let time_str = strftime env dt ''%d %b %Y, %I:%M %p'';
               price_inr = flight_price_inr env f;
               dep_code = departure_iataCode f;
               arr_code = arrival_iataCode f;
               (dep_city, cache1) = get_city_name env cache dep_code;
               (arr_city, cache2) = get_city_name env cache1 arr_code;
               route_str = dep_city @ '' ('' @ dep_code @ '') '' @ sym_arrow @ '' '' @ arr_city @ '' ('' @ arr_code @ '')'';
               line = ''  '' @ flight_code @ '' | '' @ route_str @ '' | '' @ time_str @ '' | '' @ sym_rupee @ str_int price_inr
           in case flight_lines env cache2 fs of
                (Inl e, cache3) \<Rightarrow> (Inl e, cache3)
              | (Inr ls, cache3) \<Rightarrow> (Inr (line # ls), cache3)))"

text \<open>Lines 666-681: the price of a hotel offer, converted by its currency.\<close>

definition hotel_prices_inr :: "('t, 'f) env \<Rightarrow> 'f hotel_offer \<Rightarrow> int \<times> int" where
  "hotel_prices_inr env offer =
     (let currency = get_default (price_currency_opt offer) ''EUR'';
          total = get_default (price_total_opt offer) (float_of_int env 0);
          base = get_default (price_base_opt offer) (float_of_int env 0)
      in if currency = ''EUR'' then
           (ftrunc env (fmul env total (EUR_TO_INR env)), ftrunc env (fmul env base (EUR_TO_INR env)))
         else if currency = ''GBP'' then
           (ftrunc env (fmul env total (float_of_int env 125)),
            ftrunc env (fmul env base (float_of_int env 125)))
         else if currency = ''USD'' then
           (ftrunc env (fmul env total (float_of_int env 83)),
            ftrunc env (fmul env base (float_of_int env 83)))
         else (ftrunc env total, ftrunc env base))"

definition price_line :: "('t, 'f) env \<Rightarrow> 'f hotel_offer \<Rightarrow> string" where
  "price_line env offer =
     (let currency = get_default (price_currency_opt offer) ''EUR'';
          (price_inr, base_inr) = hotel_prices_inr env offer
      in ''   '' @ sym_money @ '' Price: '' @ sym_rupee @ str_int price_inr @ '' total (Base: '' @ sym_rupee @ str_int base_inr @ '') | Currency: '' @ currency)"

text \<open>Lines 685-714: the other lines of an offer.\<close>

definition offer_detail_lines :: "('t, 'f) env \<Rightarrow> 'f hotel_offer \<Rightarrow> string list" where
  "offer_detail_lines env offer =
     (let room_category =
            str_title env
              (map (\<lambda>c. if c = CHR ''_'' then CHR '' '' else c)
                 (get_default (room_category offer) ''Standard Room''));
          beds = (case room_beds offer of None \<Rightarrow> ''N/A'' | Some n \<Rightarrow> str_int n);
          bed_type = get_default (room_bedType offer) ''N/A'';
          desc_text = get_default (room_description_text offer) [];
          desc_short = (if 150 < length desc_text then take 150 desc_text @ ''...'' else desc_text);
          check_in = get_default (checkInDate offer) ''N/A'';
          check_out = get_default (checkOutDate offer) ''N/A'';
          payment_type = get_default (paymentType offer) ''N/A'';
          cancel_type = get_default (cancellation_type offer) ''N/A'';
          cancel_desc_text =
            (case cancellation_description offer of
               None \<Rightarrow> ''No cancellation info''
             | Some (DescDict t) \<Rightarrow> get_default t ''No cancellation info''
             | Some (DescOther v) \<Rightarrow> if v \<noteq> [] then v else ''No cancellation info'')
      in [''   '' @ sym_bed @ ''  Room: '' @ room_category @ '' | '' @ beds @ '' bed(s) - '' @ bed_type] @
         (if desc_text \<noteq> [] then [''   '' @ sym_memo @ '' '' @ desc_short] else []) @
         [''   '' @ sym_calendar @ '' '' @ check_in @ '' to '' @ check_out,
          ''   '' @ sym_label @ ''  Payment: '' @ payment_type @ '' | Cancellation: '' @ cancel_type,
          ''   '' @ sym_info @ ''  '' @ cancel_desc_text])"

text \<open>Lines 716-728: the lines of a hotel without offers.\<close>

definition no_offer_lines :: "hotel_info option \<Rightarrow> string list" where
  "no_offer_lines hotel_info =
     (let city_name = (case hotel_info of None \<Rightarrow> [] | Some h \<Rightarrow> get_default (address_cityName h) []);
          dist_value = (case hotel_info of None \<Rightarrow> [] | Some h \<Rightarrow> get_default (distance_value h) []);
          dist_unit = (case hotel_info of None \<Rightarrow> [] | Some h \<Rightarrow> get_default (distance_unit h) [])
      in [''   '' @ sym_info @ ''  No pricing available for selected dates''] @
         (if city_name \<noteq> [] then [''   '' @ sym_pin @ '' Location: '' @ city_name] else []) @
         (if dist_value \<noteq> [] then [''   '' @ sym_ruler @ '' Distance from center: '' @ dist_value @ '' '' @ dist_unit] else []))"

text \<open>Lines 654-730: the lines of one hotel.\<close>

definition hotel_entry_lines :: "('t, 'f) env \<Rightarrow> nat \<times> 'f hotel_entry \<Rightarrow> string list" where
  "hotel_entry_lines env p =
     (case p of (idx, h) \<Rightarrow>
        (let hotel_name = (case hotel h of None \<Rightarrow> ''Unknown Hotel''
                           | Some hi \<Rightarrow> get_default (name hi) ''Unknown Hotel'');
             hotel_id = (case hotel h of None \<Rightarrow> ''N/A'' | Some hi \<Rightarrow> get_default (hotelId hi) ''N/A'')
         in [str_nat idx @ ''. **'' @ hotel_name @ ''** (ID: '' @ hotel_id @ '')''] @
            (case offers h of
               offer # _ \<Rightarrow> price_line env offer # offer_detail_lines env offer
             | [] \<Rightarrow> no_offer_lines (hotel h)) @
            [[]]))"

definition synthesis_node ::
  "('t, 'f) env \<Rightarrow> city_cache \<Rightarrow> 'f agent_state \<Rightarrow> (error + 'f agent_state) \<times> city_cache" where
  "synthesis_node env cache state =
     (let (flight_part, cache1) =
            (case flights state of
               None \<Rightarrow> (Inr [], cache)
             | Some fs \<Rightarrow>
                 if fs \<noteq> [] then
                   (case flight_lines env cache (take 5 fs) of
                      (Inl e, cache') \<Rightarrow> (Inl e, cache')
                    | (Inr ls, cache') \<Rightarrow> (Inr ([sym_airplane @ '' **FLIGHTS:**''] @ ls @ [[]]), cache'))
                 else (Inr [], cache))
      in case flight_part of
           Inl e \<Rightarrow> (Inl e, cache1)
         | Inr lines1 \<Rightarrow>
             (let lines =
                    lines1 @
                    (case hotels state of
                       None \<Rightarrow> []
                     | Some hs \<Rightarrow>
                         if hs \<noteq> [] then
                           [sym_hotel @ '' **HOTELS:**'', []] @
                           concat (map (hotel_entry_lines env) (enumerate1 (take 5 hs)))
                         else [])
              in if lines = [] then
                   (Inr (state\<lparr>response := Some ''No results available for your search.''\<rparr>), cache1)
                 else (Inr (state\<lparr>response := Some (join ''\<newline>'' lines)\<rparr>), cache1)))"

section \<open>The graph (\<^verbatim>\<open>src/agents/graph.py\<close>)\<close>

text \<open>The edges of \<^verbatim>\<open>create_agent\<close>: the node that follows \<open>n\<close> in the state it produced.\<close>

definition next_node :: "node \<Rightarrow> 'f agent_state \<Rightarrow> node" where
  "next_node n state =
     (case n of
        Intent \<Rightarrow> router state
      | Flight_tool \<Rightarrow> flight_tool_router state
      | Hotel_tool \<Rightarrow> Synthesis
      | Clarify \<Rightarrow> END
      | Synthesis \<Rightarrow> END
      | Web_search_fallback \<Rightarrow> END
      | END \<Rightarrow> END)"

definition run_node ::
  "('t, 'f) env \<Rightarrow> node \<Rightarrow> city_cache \<Rightarrow> 'f agent_state \<Rightarrow> (error + 'f agent_state) \<times> city_cache" where
  "run_node env n cache state =
     (case n of
        Intent \<Rightarrow>
          (case intent_node env state of
             None \<Rightarrow> (Inl LLMError, cache)
           | Some state' \<Rightarrow> (Inr state', cache))
      | Flight_tool \<Rightarrow> (case flight_tool env cache state of (state', cache') \<Rightarrow> (Inr state', cache'))
      | Hotel_tool \<Rightarrow> (Inr (hotel_tool env state), cache)
      | Clarify \<Rightarrow> (Inr (clarify_node state), cache)
      | Synthesis \<Rightarrow> synthesis_node env cache state
      | Web_search_fallback \<Rightarrow>
          (case web_search_fallback_node env cache state of (state', cache') \<Rightarrow> (Inr state', cache'))
      | END \<Rightarrow> (Inr state, cache))"

text \<open>
  Running the compiled graph from node \<open>n\<close>: the nodes visited, the final state or the
  exception that escaped, and the cache.  The first argument is the number of steps
  left before the graph library gives up (its recursion limit, 25 by default).
\<close>

fun run_from ::
  "nat \<Rightarrow> ('t, 'f) env \<Rightarrow> node \<Rightarrow> city_cache \<Rightarrow> 'f agent_state \<Rightarrow>
     node list \<times> (error + 'f agent_state) \<times> city_cache" where
  "run_from 0 env n cache state =
     (if n = END then ([], Inr state, cache) else ([], Inl GraphRecursionError, cache))"
| "run_from (Suc k) env n cache state =
     (if n = END then ([], Inr state, cache)
      else (case run_node env n cache state of
              (Inl e, cache') \<Rightarrow> ([n], Inl e, cache')
            | (Inr state', cache') \<Rightarrow>
                (case run_from k env (next_node n state') cache' state' of
                   (visited, r, cache'') \<Rightarrow> (n # visited, r, cache''))))"

definition recursion_limit :: nat where
  "recursion_limit = 25"

text \<open>\<^verbatim>\<open>agent.invoke(initial_state)\<close>, from the entry point \<^verbatim>\<open>intent\<close>.\<close>

definition run_agent ::
  "('t, 'f) env \<Rightarrow> city_cache \<Rightarrow> 'f agent_state \<Rightarrow>
     node list \<times> (error + 'f agent_state) \<times> city_cache" where
  "run_agent env cache state = run_from recursion_limit env Intent cache state"

section \<open>A sample environment\<close>

text \<open>
  Concrete collaborators, for evaluating the nodes on concrete inputs.  The parser
  accepts the two shapes \<^verbatim>\<open>YYYY-MM-DD\<close> and \<^verbatim>\<open>YYYY-MM-DDTHH:MM:SS\<close> of an ISO date and
  rejects every other text; the day number is the proleptic Gregorian ordinal of
  \<^verbatim>\<open>date.toordinal()\<close>; floats are exact rationals.
\<close>

record sample_datetime =
  dt_year :: nat
  dt_month :: nat
  dt_day :: nat
  dt_hour :: nat
  dt_minute :: nat

definition digit_of :: "char \<Rightarrow> nat option" where
  "digit_of c = (let n = (of_char c :: nat) in if 48 \<le> n \<and> n \<le> 57 then Some (n - 48) else None)"

fun digits_of :: "string \<Rightarrow> nat \<Rightarrow> nat option" where
  "digits_of [] acc = Some acc"
| "digits_of (c # cs) acc =
     (case digit_of c of None \<Rightarrow> None | Some d \<Rightarrow> digits_of cs (10 * acc + d))"

definition is_leap :: "nat \<Rightarrow> bool" where
  "is_leap y = (y mod 4 = 0 \<and> (y mod 100 \<noteq> 0 \<or> y mod 400 = 0))"

definition days_in_month :: "nat \<Rightarrow> nat \<Rightarrow> nat" where
  "days_in_month y m =
     (if m = 2 then (if is_leap y then 29 else 28)
      else if m = 4 \<or> m = 6 \<or> m = 9 \<or> m = 11 then 30 else 31)"

definition sample_fromisoformat :: "string \<Rightarrow> sample_datetime option" where
  "sample_fromisoformat s =
     (if (length s = 10 \<or>
          (length s = 19 \<and> s ! 10 = CHR ''T'' \<and> s ! 13 = CHR '':'' \<and> s ! 16 = CHR '':'')) \<and>
         s ! 4 = CHR ''-'' \<and> s ! 7 = CHR ''-''
      then
        (case (digits_of (take 4 s) 0, digits_of (take 2 (drop 5 s)) 0,
               digits_of (take 2 (drop 8 s)) 0, digits_of (take 2 (drop 11 s)) 0,
               digits_of (take 2 (drop 14 s)) 0, digits_of (take 2 (drop 17 s)) 0) of
           (Some y, Some m, Some d, Some hh, Some mm, Some ss) \<Rightarrow>
             if 1 \<le> y \<and> 1 \<le> m \<and> m \<le> 12 \<and> 1 \<le> d \<and> d \<le> days_in_month y m \<and>
                hh < 24 \<and> mm < 60 \<and> ss < 60
             then Some \<lparr>dt_year = y, dt_month = m, dt_day = d, dt_hour = hh, dt_minute = mm\<rparr>
             else None
         | _ \<Rightarrow> None)
      else None)"

definition days_before_month :: "nat \<Rightarrow> nat \<Rightarrow> nat" where
  "days_before_month y m =
     [0, 31, 59, 90, 120, 151, 181, 212, 243, 273, 304, 334] ! (m - 1) +
     (if 2 < m \<and> is_leap y then 1 else 0)"

definition sample_ordinal :: "sample_datetime \<Rightarrow> int" where
  "sample_ordinal t =
     (let y = dt_year t - 1
      in int (365 * y + y div 4 + y div 400 + days_before_month (dt_year t) (dt_month t)
              + dt_day t) - int (y div 100))"

definition month_name :: "nat \<Rightarrow> string" where
  "month_name m =
     [''January'', ''February'', ''March'', ''April'', ''May'', ''June'', ''July'', ''August'',
      ''September'', ''October'', ''November'', ''December''] ! (m - 1)"

definition pad :: "nat \<Rightarrow> nat \<Rightarrow> string" where
  "pad w n = replicate (w - length (str_nat n)) CHR ''0'' @ str_nat n"

definition sample_strftime :: "sample_datetime \<Rightarrow> string \<Rightarrow> string" where
  "sample_strftime t fmt =
     (if fmt = ''%B %d, %Y'' then
        month_name (dt_month t) @ '' '' @ pad 2 (dt_day t) @ '', '' @ pad 4 (dt_year t)
      else if fmt = ''%d %b %Y, %I:%M %p'' then
        pad 2 (dt_day t) @ '' '' @ take 3 (month_name (dt_month t)) @ '' '' @ pad 4 (dt_year t) @
        '', '' @ pad 2 (if dt_hour t mod 12 = 0 then 12 else dt_hour t mod 12) @ '':'' @
        pad 2 (dt_minute t) @ '' '' @ (if dt_hour t < 12 then ''AM'' else ''PM'')
      else fmt)"

text \<open>\<^verbatim>\<open>str.title\<close> on ASCII text.\<close>

definition is_lower :: "char \<Rightarrow> bool" where
  "is_lower c = (97 \<le> (of_char c :: nat) \<and> (of_char c :: nat) \<le> 122)"

definition is_upper :: "char \<Rightarrow> bool" where
  "is_upper c = (65 \<le> (of_char c :: nat) \<and> (of_char c :: nat) \<le> 90)"

fun title_from :: "bool \<Rightarrow> string \<Rightarrow> string" where
  "title_from inside [] = []"
| "title_from inside (c # cs) =
     (if is_lower c then
        (if inside then c else char_of ((of_char c :: nat) - 32)) # title_from True cs
      else if is_upper c then
        (if inside then char_of ((of_char c :: nat) + 32) else c) # title_from True cs
      else c # title_from False cs)"

definition sample_truncate :: "rat \<Rightarrow> int" where
  "sample_truncate x = (if 0 \<le> x then \<lfloor>x\<rfloor> else \<lceil>x\<rceil>)"

text \<open>
  The provider knows one flight (BOM to DEL, priced 100) and the cities of two airports;
  it has no hotels; no search backend answers; the language model asks for that flight.
  The day is 2026-11-04.
\<close>

definition sample_offer :: "rat flight_offer" where
  "sample_offer =
     \<lparr>carrierCode = ''AI'', number = ''101'', departure_at = ''2030-03-15T06:30:00'',
      departure_iataCode = ''BOM'', arrival_iataCode = ''DEL'',
      price_total = 100, price_currency = ''USD''\<rparr>"

definition sample_intent :: travel_intent where
  "sample_intent =
     \<lparr>intent = ''flight_search'', origin = Some ''BOM'', destination = Some ''DEL'',
      check_in = Some ''2030-03-15'', check_out = None, travelers = 1,
      reasoning = ''flight request''\<rparr>"

definition sample_env :: "(sample_datetime, rat) env" where
  "sample_env =
     \<lparr>llm_invoke = (\<lambda>context q. Some sample_intent),
      fromisoformat = sample_fromisoformat,
      date_ordinal = sample_ordinal,
      today_ordinal = 739924,
      strftime = sample_strftime,
      search_flights =
        (\<lambda>orig dest date adults.
           if orig = ''BOM'' \<and> dest = ''DEL'' then Returned [sample_offer] else Returned []),
      search_hotels_by_city = (\<lambda>city. Returned []),
      search_hotel_offers = (\<lambda>hotel_id adults date_in date_out. Returned []),
      get_location_info =
        (\<lambda>iata. if iata = ''BOM'' then Some ''Mumbai''
                else if iata = ''DEL'' then Some ''Delhi'' else None),
      requests_get = (\<lambda>u q. HttpRaised),
      requests_post = (\<lambda>u q. HttpRaised),
      fmul = (*),
      ftrunc = sample_truncate,
      float_of_int = rat_of_int,
      EUR_TO_INR = 10719 / 100,
      str_title = title_from False\<rparr>"

definition sample_state :: "rat agent_state" where
  "sample_state =
     \<lparr>query = ''Book a flight from BOM to DEL on 2030-03-15'', conversation_history = [],
      state_intent = None, flights = None, hotels = None, response = None,
      use_web_search = False, search_query = None\<rparr>"

text \<open>Variants: a request for flight and hotel, and a provider whose flight search fails.\<close>

definition sample_both_intent :: travel_intent where
  "sample_both_intent = sample_intent\<lparr>intent := ''both'', check_out := Some ''2030-03-18''\<rparr>"

definition sample_env_both :: "(sample_datetime, rat) env" where
  "sample_env_both = sample_env\<lparr>llm_invoke := (\<lambda>context q. Some sample_both_intent)\<rparr>"

definition outage_error :: response_error where
  "outage_error = \<lparr>errors = [\<lparr>code = Some 141, status = Some 500\<rparr>], error_str = ''[500]''\<rparr>"

definition hard_error :: response_error where
  "hard_error = \<lparr>errors = [\<lparr>code = Some 477, status = Some 400\<rparr>], error_str = ''[400]''\<rparr>"

definition unavailable_error :: response_error where
  "unavailable_error = \<lparr>errors = [\<lparr>code = None, status = Some 503\<rparr>], error_str = ''[503]''\<rparr>"

definition sample_env_raising :: "response_error \<Rightarrow> (sample_datetime, rat) env" where
  "sample_env_raising e =
     sample_env\<lparr>search_flights := (\<lambda>orig dest date adults. RaisedResponseError e)\<rparr>"

text \<open>A hotel with one offer priced in US dollars.\<close>

definition sample_hotel_offer :: "rat hotel_offer" where
  "sample_hotel_offer =
     \<lparr>price_currency_opt = Some ''USD'', price_total_opt = Some 100, price_base_opt = Some 90,
      room_category = Some ''DELUXE_ROOM'', room_beds = Some 1, room_bedType = Some ''KING'',
      room_description_text = Some ''Deluxe room with a king bed'',
      checkInDate = Some ''2030-03-15'', checkOutDate = Some ''2030-03-18'',
      paymentType = Some ''deposit'', cancellation_type = Some ''FULL_STAY'',
      cancellation_description = Some (DescDict (Some ''Non refundable''))\<rparr>"

definition sample_hotel :: "rat hotel_entry" where
  "sample_hotel =
     \<lparr>hotel = Some \<lparr>hotelId = Some ''HLDEL001'', name = Some ''Sample Palace'',
                     address_cityName = None, distance_value = None, distance_unit = None\<rparr>,
      available = True, offers = [sample_hotel_offer]\<rparr>"




text \<open>
  Hotel offers: the provider is rate-limited for the first hotel, rejects the second,
  has three offers for the third, two for the fourth and one for every other hotel.
\<close>

definition sample_env_hotels :: "(sample_datetime, rat) env" where
  "sample_env_hotels =
     sample_env\<lparr>search_hotel_offers :=
       (\<lambda>hotel_id adults date_in date_out.
          if hotel_id = ''H1'' then RaisedResponseError \<lparr>errors = [], error_str = ''[429]''\<rparr>
          else if hotel_id = ''H2'' then RaisedResponseError \<lparr>errors = [], error_str = ''[400]''\<rparr>
          else if hotel_id = ''H3'' then Returned [sample_hotel, sample_hotel, sample_hotel]
          else if hotel_id = ''H4'' then Returned [sample_hotel, sample_hotel]
          else Returned [sample_hotel])\<rparr>"

section \<open>Notions used in the statements\<close>

text \<open>
  The required fields of the three search intents are set (the table of the validator):
  origin, destination and check-in for a flight search; destination, check-in and
  check-out for a hotel search; all four for both.
\<close>

definition complete_intent :: "travel_intent \<Rightarrow> bool" where
  "complete_intent d =
     ((intent d = ''flight_search'' \<longrightarrow>
         truthy (origin d) \<and> truthy (destination d) \<and> truthy (check_in d)) \<and>
      (intent d = ''hotel_search'' \<longrightarrow>
         truthy (destination d) \<and> truthy (check_in d) \<and> truthy (check_out d)) \<and>
      (intent d = ''both'' \<longrightarrow>
         truthy (origin d) \<and> truthy (destination d) \<and> truthy (check_in d) \<and> truthy (check_out d)))"

text \<open>Two intents agree on the trip itself: every field but the tag and the reasoning.\<close>

definition same_trip_fields :: "travel_intent \<Rightarrow> travel_intent \<Rightarrow> bool" where
  "same_trip_fields r d =
     (origin r = origin d \<and> destination r = destination d \<and> check_in r = check_in d \<and>
      check_out r = check_out d \<and> travelers r = travelers d)"


text \<open>
  The outage test in the words of the specification: the first reported error carries
  the code 141 or a status of the 500 class.  The test of the code is \<open>is_outage\<close>.
\<close>

definition outage_as_claimed :: "response_error \<Rightarrow> bool" where
  "outage_as_claimed e =
     (case errors e of
        [] \<Rightarrow> False
      | first # _ \<Rightarrow>
          code first = Some 141 \<or>
          (case status first of None \<Rightarrow> False | Some s \<Rightarrow> 500 \<le> s \<and> s \<le> 599))"



text \<open>
  For the loop of the hotel step: what the provider does for one hotel identifier, the
  offers it returns (none when it raises), and the events of the loop for it (the
  request, followed by the back-off sleep when the provider raises a \<^verbatim>\<open>ResponseError\<close>
  whose text contains "429").
\<close>

definition offer_outcome ::
  "('t, 'f) env \<Rightarrow> travel_intent \<Rightarrow> string \<Rightarrow> 'f hotel_entry list outcome" where
  "offer_outcome env i hotel_id =
     search_hotel_offers env hotel_id (travelers i) (py_str (check_in i)) (py_str (check_out i))"

definition offers_of :: "('t, 'f) env \<Rightarrow> travel_intent \<Rightarrow> string \<Rightarrow> 'f hotel_entry list" where
  "offers_of env i hotel_id =
     (case offer_outcome env i hotel_id of Returned offer_data \<Rightarrow> offer_data | _ \<Rightarrow> [])"

definition events_of :: "('t, 'f) env \<Rightarrow> travel_intent \<Rightarrow> string \<Rightarrow> hotel_event list" where
  "events_of env i hotel_id =
     OfferRequest hotel_id #
     (case offer_outcome env i hotel_id of
        RaisedResponseError e \<Rightarrow> if sublist ''429'' (error_str e) then [BackoffSleep] else []
      | _ \<Rightarrow> [])"

definition raises_other :: "('t, 'f) env \<Rightarrow> travel_intent \<Rightarrow> string \<Rightarrow> bool" where
  "raises_other env i hotel_id =
     (case offer_outcome env i hotel_id of RaisedException msg \<Rightarrow> True | _ \<Rightarrow> False)"

text \<open>The number of identifiers the loop requests, counted along the loop.\<close>

fun requests_made ::
  "('t, 'f) env \<Rightarrow> travel_intent \<Rightarrow> string list \<Rightarrow> 'f hotel_entry list \<Rightarrow> nat" where
  "requests_made env i [] valid_offers = 0"
| "requests_made env i (hotel_id # rest) valid_offers =
     (case offer_outcome env i hotel_id of
        Returned offer_data \<Rightarrow>
          if offer_data \<noteq> [] \<and> 5 \<le> length (valid_offers @ offer_data) then 1
          else Suc (requests_made env i rest (valid_offers @ offer_data))
      | RaisedResponseError e \<Rightarrow> Suc (requests_made env i rest valid_offers)
      | RaisedException msg \<Rightarrow> 1)"

section \<open>Lemmas about the validation\<close>

lemma force_clarify_fields:
  "origin (force_clarify m d) = origin d"
  "destination (force_clarify m d) = destination d"
  "check_in (force_clarify m d) = check_in d"
  "check_out (force_clarify m d) = check_out d"
  "travelers (force_clarify m d) = travelers d"
  by (simp_all add: force_clarify_def)

lemma strict_validation_fields:
  "origin (strict_validation oi d) = origin d"
  "destination (strict_validation oi d) = destination d"
  "check_in (strict_validation oi d) = check_in d"
  "check_out (strict_validation oi d) = check_out d"
  "travelers (strict_validation oi d) = travelers d"
  by (simp_all add: strict_validation_def flight_validation_def hotel_validation_def
        both_validation_def force_clarify_fields)

lemma past_date_guard_fields:
  "origin (past_date_guard env d) = origin d"
  "destination (past_date_guard env d) = destination d"
  "check_in (past_date_guard env d) = check_in d"
  "check_out (past_date_guard env d) = check_out d"
  "travelers (past_date_guard env d) = travelers d"
  by (simp_all add: past_date_guard_def split: option.splits)

lemma past_date_guard_intent:
  "intent (past_date_guard env d) = intent d \<or> intent (past_date_guard env d) = ''clarify''"
  by (simp add: past_date_guard_def split: option.splits)

lemma past_date_guard_clarify:
  "intent d = ''clarify'' \<Longrightarrow> intent (past_date_guard env d) = ''clarify''"
  using past_date_guard_intent[of env d] by auto

lemma flight_missing_Nil:
  "flight_missing d = [] \<longleftrightarrow>
     truthy (origin d) \<and> truthy (destination d) \<and> origin d \<noteq> destination d \<and> truthy (check_in d)"
  by (auto simp: flight_missing_def)

lemma hotel_missing_Nil:
  "hotel_missing d = [] \<longleftrightarrow> truthy (destination d) \<and> truthy (check_in d) \<and> truthy (check_out d)"
  by (auto simp: hotel_missing_def)

lemma both_missing_Nil:
  "both_missing d = [] \<longleftrightarrow>
     truthy (origin d) \<and> truthy (destination d) \<and> truthy (check_in d) \<and> truthy (check_out d)"
  by (auto simp: both_missing_def)

lemma strict_validation_intent:
  "intent d = oi \<Longrightarrow> intent (strict_validation oi d) =
     (if oi = ''flight_search'' \<and> flight_missing d \<noteq> [] then ''clarify''
      else if oi = ''hotel_search'' \<and> hotel_missing d \<noteq> [] then ''clarify''
      else if oi = ''both'' \<and> both_missing d \<noteq> [] then ''clarify''
      else oi)"
  by (simp add: strict_validation_def flight_validation_def hotel_validation_def
        both_validation_def force_clarify_def)


lemma hotel_fix_intent: "intent (hotel_fix oi d) = intent d"
  by (simp add: hotel_fix_def)

lemma hotel_fix_check_in: "check_in (hotel_fix oi d) = check_in d"
  by (simp add: hotel_fix_def)

lemma complete_strict:
  "intent d = oi \<Longrightarrow> complete_intent (strict_validation oi d)"
  unfolding complete_intent_def strict_validation_fields
  by (simp add: strict_validation_intent flight_missing_Nil hotel_missing_Nil both_missing_Nil)

lemma incomplete_strict:
  "intent d = oi \<Longrightarrow> \<not> complete_intent d \<Longrightarrow> intent (strict_validation oi d) = ''clarify''"
  unfolding complete_intent_def
  by (auto simp: strict_validation_intent flight_missing_Nil hotel_missing_Nil both_missing_Nil)

lemma complete_guard: "complete_intent d \<Longrightarrow> complete_intent (past_date_guard env d)"
  using past_date_guard_intent[of env d]
  unfolding complete_intent_def past_date_guard_fields
  by auto

lemma post_process_complete: "complete_intent (post_process env raw)"
  unfolding post_process_def Let_def
  by (rule complete_guard, rule complete_strict, rule hotel_fix_intent)

lemma strict_validation_intent_cases:
  "intent d = oi \<Longrightarrow> intent (strict_validation oi d) = oi \<or> intent (strict_validation oi d) = ''clarify''"
  by (simp add: strict_validation_intent)

lemma post_process_intent_cases:
  "intent (post_process env raw) = intent raw \<or> intent (post_process env raw) = ''clarify''"
  unfolding post_process_def Let_def
  using past_date_guard_intent[of env "strict_validation (intent raw) (hotel_fix (intent raw) raw)"]
    strict_validation_intent_cases[of "hotel_fix (intent raw) raw" "intent raw"]
  by (auto simp: hotel_fix_intent)

lemma post_process_incomplete:
  "\<not> complete_intent (hotel_fix (intent raw) raw) \<Longrightarrow> intent (post_process env raw) = ''clarify''"
  unfolding post_process_def Let_def
  by (rule past_date_guard_clarify, rule incomplete_strict, rule hotel_fix_intent)

lemma intent_node_Some:
  "llm_invoke env (build_context (conversation_history state)) (query state) = Some raw \<Longrightarrow>
   intent_node env state = Some (state\<lparr>state_intent := Some (post_process env raw)\<rparr>)"
  by (simp add: intent_node_def)

lemma sample_env_fields:
  "llm_invoke sample_env = (\<lambda>context q. Some sample_intent)"
  "fromisoformat sample_env = sample_fromisoformat"
  "date_ordinal sample_env = sample_ordinal"
  "today_ordinal sample_env = 739924"
  "strftime sample_env = sample_strftime"
  "get_location_info sample_env =
     (\<lambda>iata. if iata = ''BOM'' then Some ''Mumbai''
             else if iata = ''DEL'' then Some ''Delhi'' else None)"
  "fmul sample_env = (*)"
  "ftrunc sample_env = sample_truncate"
  "float_of_int sample_env = rat_of_int"
  "EUR_TO_INR sample_env = 10719 / 100"
  by (simp_all add: sample_env_def)

lemma sample_dates:
  "sample_fromisoformat ''2030-03-15'' =
     Some \<lparr>dt_year = 2030, dt_month = 3, dt_day = 15, dt_hour = 0, dt_minute = 0\<rparr>"
  "sample_fromisoformat ''2020-02-10'' =
     Some \<lparr>dt_year = 2020, dt_month = 2, dt_day = 10, dt_hour = 0, dt_minute = 0\<rparr>"
  "sample_fromisoformat ''tomorrow'' = None"
  by (simp_all add: sample_fromisoformat_def digit_of_def days_in_month_def is_leap_def)

lemma sample_ordinals:
  "sample_ordinal \<lparr>dt_year = 2030, dt_month = 3, dt_day = 15, dt_hour = 0, dt_minute = 0\<rparr> = 741151"
  "sample_ordinal \<lparr>dt_year = 2020, dt_month = 2, dt_day = 10, dt_hour = 0, dt_minute = 0\<rparr> = 737465"
  by (simp_all add: sample_ordinal_def days_before_month_def is_leap_def)

lemma sample_post_process:
  "post_process sample_env sample_intent = sample_intent"
  by (simp add: post_process_def Let_def hotel_fix_def strict_validation_def flight_validation_def
      hotel_validation_def both_validation_def force_clarify_def flight_missing_def
      past_date_guard_def sample_env_fields sample_dates sample_ordinals sample_intent_def truthy_def)

lemma post_process_check_in: "check_in (post_process env raw) = check_in raw"
  by (simp add: post_process_def Let_def past_date_guard_fields strict_validation_fields
      hotel_fix_check_in)

lemma past_date_guard_past:
  "check_in d = Some s \<Longrightarrow> s \<noteq> [] \<Longrightarrow> fromisoformat env s = Some dt \<Longrightarrow>
   date_ordinal env dt < today_ordinal env \<Longrightarrow>
   past_date_guard env d =
     d\<lparr>intent := ''clarify'', reasoning := ''Check-in/departure date cannot be in the past''\<rparr>"
  by (simp add: past_date_guard_def)

lemma past_date_guard_invalid:
  "check_in d = Some s \<Longrightarrow> s \<noteq> [] \<Longrightarrow> fromisoformat env s = None \<Longrightarrow>
   past_date_guard env d =
     d\<lparr>intent := ''clarify'', reasoning := ''Invalid date format. Please provide a valid date.''\<rparr>"
  by (simp add: past_date_guard_def)









section \<open>Lemmas about the graph\<close>

declare run_from.simps [simp del]

lemma run_from_END: "run_from k env END cache state = ([], Inr state, cache)"
  by (cases k) (simp_all add: run_from.simps)

lemma run_from_unfold:
  assumes "0 < k"
  shows "run_from k env n cache state =
     (if n = END then ([], Inr state, cache)
      else (case run_node env n cache state of
              (Inl e, cache') \<Rightarrow> ([n], Inl e, cache')
            | (Inr state', cache') \<Rightarrow>
                (case run_from (k - 1) env (next_node n state') cache' state' of
                   (visited, r, cache'') \<Rightarrow> (n # visited, r, cache''))))"
proof (cases k)
  case 0
  with assms show ?thesis by simp
next
  case (Suc m)
  show ?thesis unfolding Suc diff_Suc_1 by (simp add: run_from.simps)
qed

lemma next_node_simps:
  "next_node Intent s = router s"
  "next_node Flight_tool s = flight_tool_router s"
  "next_node Hotel_tool s = Synthesis"
  "next_node Clarify s = END"
  "next_node Synthesis s = END"
  "next_node Web_search_fallback s = END"
  by (simp_all add: next_node_def)

lemma run_node_simps:
  "run_node env Flight_tool cache state =
     (Inr (fst (flight_tool env cache state)), snd (flight_tool env cache state))"
  "run_node env Hotel_tool cache state = (Inr (hotel_tool env state), cache)"
  "run_node env Clarify cache state = (Inr (clarify_node state), cache)"
  "run_node env Synthesis cache state = synthesis_node env cache state"
  "run_node env Web_search_fallback cache state =
     (Inr (fst (web_search_fallback_node env cache state)),
      snd (web_search_fallback_node env cache state))"
  by (simp_all add: run_node_def split: prod.splits)

lemma run_node_Intent:
  "intent_node env state = Some state' \<Longrightarrow> run_node env Intent cache state = (Inr state', cache)"
  by (simp add: run_node_def)

text \<open>The runs from each node after the entry point.\<close>

lemma run_from_Synthesis:
  "0 < k \<Longrightarrow> run_from k env Synthesis cache state =
     ([Synthesis], fst (synthesis_node env cache state), snd (synthesis_node env cache state))"
  by (simp add: run_from_unfold next_node_simps run_node_simps run_from_END
      split: prod.splits sum.splits)

lemma run_from_Clarify:
  "0 < k \<Longrightarrow> run_from k env Clarify cache state = ([Clarify], Inr (clarify_node state), cache)"
  by (simp add: run_from_unfold next_node_simps run_node_simps run_from_END)

lemma run_from_Web:
  "0 < k \<Longrightarrow> run_from k env Web_search_fallback cache state =
     ([Web_search_fallback], Inr (fst (web_search_fallback_node env cache state)),
      snd (web_search_fallback_node env cache state))"
  by (simp add: run_from_unfold next_node_simps run_node_simps run_from_END)

lemma run_from_Hotel:
  "1 < k \<Longrightarrow> run_from k env Hotel_tool cache state =
     ([Hotel_tool, Synthesis], fst (synthesis_node env cache (hotel_tool env state)),
      snd (synthesis_node env cache (hotel_tool env state)))"
  by (simp add: run_from_unfold[of k] next_node_simps run_node_simps run_from_Synthesis)

lemma flight_tool_router_cases:
  "flight_tool_router s = Web_search_fallback \<or> flight_tool_router s = Hotel_tool \<or>
   flight_tool_router s = Synthesis"
  by (simp add: flight_tool_router_def split: option.splits)

lemma run_from_Flight:
  assumes "2 < k"
  shows "run_from k env Flight_tool cache state =
     (let state2 = fst (flight_tool env cache state); cache2 = snd (flight_tool env cache state)
      in if flight_tool_router state2 = Web_search_fallback then
           ([Flight_tool, Web_search_fallback],
            Inr (fst (web_search_fallback_node env cache2 state2)),
            snd (web_search_fallback_node env cache2 state2))
         else if flight_tool_router state2 = Hotel_tool then
           ([Flight_tool, Hotel_tool, Synthesis],
            fst (synthesis_node env cache2 (hotel_tool env state2)),
            snd (synthesis_node env cache2 (hotel_tool env state2)))
         else
           ([Flight_tool, Synthesis], fst (synthesis_node env cache2 state2),
            snd (synthesis_node env cache2 state2)))"
proof -
  let ?s2 = "fst (flight_tool env cache state)" and ?c2 = "snd (flight_tool env cache state)"
  have u: "run_from k env Flight_tool cache state =
      (case run_from (k - 1) env (flight_tool_router ?s2) ?c2 ?s2 of
        (visited, r, cache'') \<Rightarrow> (Flight_tool # visited, r, cache''))"
    using assms by (simp add: run_from_unfold[of k] run_node_simps next_node_simps)
  from flight_tool_router_cases[of ?s2] show ?thesis
  proof (elim disjE)
    assume "flight_tool_router ?s2 = Web_search_fallback"
    then show ?thesis using assms by (simp add: u Let_def run_from_Web)
  next
    assume "flight_tool_router ?s2 = Hotel_tool"
    then show ?thesis using assms by (simp add: u Let_def run_from_Hotel)
  next
    assume "flight_tool_router ?s2 = Synthesis"
    then show ?thesis using assms by (simp add: u Let_def run_from_Synthesis)
  qed
qed

lemma run_agent_unfold:
  "intent_node env state0 = Some state1 \<Longrightarrow>
   run_agent env cache state0 =
     (case run_from 24 env (router state1) cache state1 of
        (visited, r, cache'') \<Rightarrow> (Intent # visited, r, cache''))"
  by (simp add: run_agent_def recursion_limit_def run_from_unfold[of 25] run_node_Intent
      next_node_simps)

lemma flight_tool_intent: "state_intent (fst (flight_tool env cache state)) = state_intent state"
  by (simp add: flight_tool_def outage_update_def Let_def
      split: option.splits outcome.splits prod.splits)

section \<open>The sample environment, evaluated\<close>

lemma sample_env_search_flights:
  "search_flights sample_env =
     (\<lambda>orig dest date adults.
        if orig = ''BOM'' \<and> dest = ''DEL'' then Returned [sample_offer] else Returned [])"
  by (simp add: sample_env_def)

lemma sample_both_post_process:
  "post_process sample_env_both sample_both_intent = sample_both_intent"
  by (simp add: post_process_def Let_def hotel_fix_def strict_validation_def flight_validation_def
      hotel_validation_def both_validation_def force_clarify_def both_missing_def
      past_date_guard_def sample_env_both_def sample_env_fields sample_dates sample_ordinals
      sample_both_intent_def sample_intent_def truthy_def)

lemma sample_both_intent_node:
  "intent_node sample_env_both sample_state =
     Some (sample_state\<lparr>state_intent := Some sample_both_intent\<rparr>)"
  by (simp add: intent_node_def sample_env_both_def sample_both_post_process[unfolded sample_env_both_def])

lemma post_process_search_flights:
  "post_process (env\<lparr>search_flights := f\<rparr>) raw = post_process env raw"
  by (simp add: post_process_def past_date_guard_def Let_def split: option.splits)

lemma sample_raising_intent_node:
  "intent_node (sample_env_raising e) sample_state =
     Some (sample_state\<lparr>state_intent := Some sample_intent\<rparr>)"
  by (simp add: intent_node_def sample_env_raising_def post_process_search_flights
      sample_post_process sample_env_fields)

lemma sample_both_flight_tool:
  "flight_tool sample_env_both Map.empty (sample_state\<lparr>state_intent := Some sample_both_intent\<rparr>) =
     (sample_state\<lparr>state_intent := Some sample_both_intent, flights := Some [sample_offer]\<rparr>,
      Map.empty)"
  by (simp add: flight_tool_def sample_env_both_def sample_env_search_flights
      sample_both_intent_def sample_intent_def truthy_def py_str_def)

lemma sample_outage_flight_tool:
  "use_web_search (fst (flight_tool (sample_env_raising outage_error) Map.empty
      (sample_state\<lparr>state_intent := Some sample_intent\<rparr>)))"
  by (simp add: flight_tool_def sample_env_raising_def sample_intent_def truthy_def py_str_def
      is_outage_def outage_error_def outage_update_def Let_def split: prod.splits)

lemma sample_hard_flight_tool:
  "flight_tool (sample_env_raising hard_error) Map.empty
      (sample_state\<lparr>state_intent := Some sample_intent\<rparr>) =
     (sample_state\<lparr>state_intent := Some sample_intent, flights := Some [],
        response := Some ''Flight search error: [400]''\<rparr>, Map.empty)"
  by (simp add: flight_tool_def sample_env_raising_def sample_intent_def truthy_def py_str_def
      is_outage_def hard_error_def)

section \<open>Lemmas about the flight step\<close>

lemma is_outage_iff:
  "is_outage e \<longleftrightarrow>
     (\<exists>first rest. errors e = first # rest \<and> (code first = Some 141 \<or> status first = Some 500))"
  by (cases "errors e") (simp_all add: is_outage_def)

lemma get_city_name_fst:
  "fst (get_city_name env cache iata_code) =
     (case cache iata_code of
        Some city \<Rightarrow> city
      | None \<Rightarrow> (case get_location_info env iata_code of Some city \<Rightarrow> city | None \<Rightarrow> iata_code))"
  by (simp add: get_city_name_def split: option.splits)

lemma flight_tool_response_error:
  assumes "state_intent state = Some i"
    and "truthy (origin i)" and "truthy (destination i)" and "truthy (check_in i)"
    and "search_flights env (py_str (origin i)) (py_str (destination i)) (py_str (check_in i))
           (travelers i) = RaisedResponseError e"
  shows "flight_tool env cache state =
     (if is_outage e then outage_update env cache state i
      else (state\<lparr>flights := Some [], response := Some (''Flight search error: '' @ error_str e)\<rparr>,
            cache))"
  using assms by (simp add: flight_tool_def)

lemma outage_update_fst:
  assumes "truthy (origin i)" and "truthy (destination i)" and "check_in i = Some s"
  shows "fst (outage_update env cache state i) =
     state\<lparr>flights := Some [], response := None, use_web_search := True,
       search_query := Some
         (''flights from '' @ fst (get_city_name env cache (py_str (origin i))) @ '' to '' @
          fst (get_city_name env (snd (get_city_name env cache (py_str (origin i))))
                 (py_str (destination i))) @
          '' on '' @
          (case fromisoformat env s of
             Some date_obj \<Rightarrow> strftime env date_obj ''%B %d, %Y''
           | None \<Rightarrow> s) @
          '' price'')\<rparr>"
  using assms
  by (simp add: outage_update_def Let_def py_str_def split: prod.splits option.splits)

lemma sample_long_date:
  "sample_strftime \<lparr>dt_year = 2030, dt_month = 3, dt_day = 15, dt_hour = 0, dt_minute = 0\<rparr>
     ''%B %d, %Y'' = ''March 15, 2030''"
  by (simp add: sample_strftime_def month_name_def pad_def digit_char_def)

lemma sample_raising_fields:
  "search_flights (sample_env_raising e) = (\<lambda>orig dest date adults. RaisedResponseError e)"
  "fromisoformat (sample_env_raising e) = sample_fromisoformat"
  "strftime (sample_env_raising e) = sample_strftime"
  "get_location_info (sample_env_raising e) =
     (\<lambda>iata. if iata = ''BOM'' then Some ''Mumbai''
             else if iata = ''DEL'' then Some ''Delhi'' else None)"
  by (simp_all add: sample_env_raising_def sample_env_fields)

lemma sample_cities:
  "get_city_name (sample_env_raising e) Map.empty ''BOM'' = (''Mumbai'', [''BOM'' \<mapsto> ''Mumbai''])"
  "fst (get_city_name (sample_env_raising e) [''BOM'' \<mapsto> ''Mumbai''] ''DEL'') = ''Delhi''"
  by (simp_all add: get_city_name_def sample_raising_fields)

section \<open>Lemmas about the synthesis\<close>



section \<open>Lemmas about the web-search fallback\<close>








section \<open>Lemmas about the hotel step\<close>

lemma offers_loop_Cons:
  "offers_loop env i (h # rest) acc =
     (case offer_outcome env i h of
        Returned offer_data \<Rightarrow>
          if offer_data \<noteq> [] \<and> 5 \<le> length (acc @ offer_data)
          then (Inr (acc @ offer_data), [OfferRequest h])
          else (fst (offers_loop env i rest (acc @ offer_data)),
                OfferRequest h # snd (offers_loop env i rest (acc @ offer_data)))
      | RaisedResponseError e \<Rightarrow>
          (fst (offers_loop env i rest acc),
           OfferRequest h #
           (if sublist ''429'' (error_str e) then [BackoffSleep] else []) @
           snd (offers_loop env i rest acc))
      | RaisedException msg \<Rightarrow> (Inl msg, [OfferRequest h]))"
  by (simp add: offer_outcome_def split: outcome.splits prod.splits)

lemma loop_events:
  "snd (offers_loop env i ids acc) =
     concat (map (events_of env i) (take (requests_made env i ids acc) ids))"
proof (induction ids arbitrary: acc)
  case Nil
  show ?case by simp
next
  case (Cons h rest)
  show ?case
    by (cases "offer_outcome env i h")
      (simp_all add: offers_loop_Cons events_of_def Cons.IH del: offers_loop.simps)
qed

lemma requests_made_le: "requests_made env i ids acc \<le> length ids"
proof (induction ids arbitrary: acc)
  case Nil
  show ?case by simp
next
  case (Cons h rest)
  show ?case
    using Cons.IH by (cases "offer_outcome env i h") (auto simp: Suc_le_eq le_imp_less_Suc)
qed

lemma below_quota:
  "length acc < 5 \<Longrightarrow> j < requests_made env i ids acc \<Longrightarrow>
   length (acc @ concat (map (offers_of env i) (take j ids))) < 5"
proof (induction ids arbitrary: acc j)
  case Nil
  then show ?case by simp
next
  case (Cons h rest)
  show ?case
  proof (cases j)
    case 0
    with Cons.prems show ?thesis by simp
  next
    case (Suc j')
    show ?thesis
    proof (cases "offer_outcome env i h")
      case (Returned offer_data)
      with Cons.prems(2) Suc have nb: "\<not> (offer_data \<noteq> [] \<and> 5 \<le> length (acc @ offer_data))"
        and r: "j' < requests_made env i rest (acc @ offer_data)"
        by (auto split: if_splits)
      from nb Cons.prems(1) have "length (acc @ offer_data) < 5" by auto
      from Cons.IH[OF this r] show ?thesis
        by (simp add: Suc offers_of_def Returned)
    next
      case (RaisedResponseError e)
      with Cons.prems(2) Suc have r: "j' < requests_made env i rest acc" by simp
      from Cons.IH[OF Cons.prems(1) r] show ?thesis
        by (simp add: Suc offers_of_def RaisedResponseError)
    next
      case (RaisedException msg)
      with Cons.prems(2) Suc show ?thesis by simp
    qed
  qed
qed

lemma loop_result:
  "fst (offers_loop env i ids acc) = Inr found \<Longrightarrow>
   found = acc @ concat (map (offers_of env i) (take (requests_made env i ids acc) ids)) \<and>
   (requests_made env i ids acc < length ids \<longrightarrow> 5 \<le> length found)"
proof (induction ids arbitrary: acc)
  case Nil
  then show ?case by simp
next
  case (Cons h rest)
  show ?case
  proof (cases "offer_outcome env i h")
    case (Returned offer_data)
    show ?thesis
    proof (cases "offer_data \<noteq> [] \<and> 5 \<le> length (acc @ offer_data)")
      case True
      with Cons.prems Returned show ?thesis
        by (auto simp: offers_loop_Cons offers_of_def simp del: offers_loop.simps)
    next
      case False
      with Cons.prems Returned have "fst (offers_loop env i rest (acc @ offer_data)) = Inr found"
        by (auto simp: offers_loop_Cons simp del: offers_loop.simps)
      from Cons.IH[OF this] False Returned show ?thesis
        by (auto simp: offers_of_def)
    qed
  next
    case (RaisedResponseError e)
    with Cons.prems have "fst (offers_loop env i rest acc) = Inr found"
      by (simp add: offers_loop_Cons del: offers_loop.simps)
    from Cons.IH[OF this] RaisedResponseError show ?thesis
      by (auto simp: offers_of_def)
  next
    case (RaisedException msg)
    with Cons.prems show ?thesis
      by (simp add: offers_loop_Cons del: offers_loop.simps)
  qed
qed

lemma loop_exception:
  "fst (offers_loop env i ids acc) = Inl msg \<Longrightarrow>
   0 < requests_made env i ids acc \<and>
   offer_outcome env i (ids ! (requests_made env i ids acc - 1)) = RaisedException msg"
proof (induction ids arbitrary: acc)
  case Nil
  then show ?case by simp
next
  case (Cons h rest)
  show ?case
  proof (cases "offer_outcome env i h")
    case (Returned offer_data)
    show ?thesis
    proof (cases "offer_data \<noteq> [] \<and> 5 \<le> length (acc @ offer_data)")
      case True
      with Cons.prems Returned show ?thesis
        by (auto simp: offers_loop_Cons simp del: offers_loop.simps)
    next
      case False
      with Cons.prems Returned have "fst (offers_loop env i rest (acc @ offer_data)) = Inl msg"
        by (auto simp: offers_loop_Cons simp del: offers_loop.simps)
      from Cons.IH[OF this] False Returned show ?thesis
        by (auto simp: nth_Cons')
    qed
  next
    case (RaisedResponseError e)
    with Cons.prems have "fst (offers_loop env i rest acc) = Inl msg"
      by (simp add: offers_loop_Cons del: offers_loop.simps)
    from Cons.IH[OF this] RaisedResponseError show ?thesis
      by (auto simp: nth_Cons')
  next
    case (RaisedException m)
    with Cons.prems show ?thesis
      by (simp add: offers_loop_Cons del: offers_loop.simps)
  qed
qed

lemma loop_survives_response_errors:
  "\<forall>h \<in> set ids. \<not> raises_other env i h \<Longrightarrow> \<exists>found. fst (offers_loop env i ids acc) = Inr found"
proof (induction ids arbitrary: acc)
  case Nil
  show ?case by simp
next
  case (Cons h rest)
  then have n: "\<not> raises_other env i h" and r: "\<forall>h \<in> set rest. \<not> raises_other env i h"
    by simp_all
  show ?case
  proof (cases "offer_outcome env i h")
    case (Returned offer_data)
    with Cons.IH[OF r] show ?thesis
      by (simp add: offers_loop_Cons del: offers_loop.simps)
  next
    case (RaisedResponseError e)
    with Cons.IH[OF r] show ?thesis
      by (simp add: offers_loop_Cons del: offers_loop.simps)
  next
    case (RaisedException msg)
    with n show ?thesis by (simp add: raises_other_def)
  qed
qed

lemma hotel_ids_length: "length (hotel_ids hotels_data) \<le> 30"
proof -
  have "length (List.map_filter f xs) \<le> length xs" for f :: "hotel_info \<Rightarrow> string option" and xs
    by (simp add: List.map_filter_def)
  from this[of hotelId "take 30 hotels_data"] show ?thesis
    by (simp add: hotel_ids_def)
qed

lemma hotel_ids_take: "hotel_ids (take 30 hotels_data) = hotel_ids hotels_data"
  by (simp add: hotel_ids_def)


lemma hotel_tool_offers:
  assumes "state_intent state = Some i"
    and "truthy (destination i)" and "truthy (check_in i)" and "truthy (check_out i)"
    and "search_hotels_by_city env (py_str (destination i)) = Returned hotels_data"
    and "fst (offers_loop env i (hotel_ids hotels_data) []) = Inr found" and "found \<noteq> []"
  shows "hotel_tool env state = state\<lparr>hotels := Some found\<rparr>"
proof -
  have ids: "hotel_ids hotels_data \<noteq> []"
    using assms(6,7) by (cases "hotel_ids hotels_data") auto
  then have "hotels_data \<noteq> []"
    by (auto simp: hotel_ids_def List.map_filter_def)
  with ids assms show ?thesis
    by (simp add: hotel_tool_def del: offers_loop.simps)
qed

lemma sample_rate_limit_text:
  "sublist ''429'' ''[429]''" "\<not> sublist ''429'' ''[400]''"
  by code_simp+

lemma sample_hotel_outcomes:
  "offer_outcome sample_env_hotels sample_both_intent ''H1'' =
     RaisedResponseError \<lparr>errors = [], error_str = ''[429]''\<rparr>"
  "offer_outcome sample_env_hotels sample_both_intent ''H2'' =
     RaisedResponseError \<lparr>errors = [], error_str = ''[400]''\<rparr>"
  "offer_outcome sample_env_hotels sample_both_intent ''H3'' =
     Returned [sample_hotel, sample_hotel, sample_hotel]"
  "offer_outcome sample_env_hotels sample_both_intent ''H4'' = Returned [sample_hotel, sample_hotel]"
  "offer_outcome sample_env_hotels sample_both_intent ''H5'' = Returned [sample_hotel]"
  "offer_outcome sample_env_hotels sample_both_intent ''H6'' = Returned [sample_hotel]"
  by (simp_all add: offer_outcome_def sample_env_hotels_def)

lemma sample_hotel_loop:
  "offers_loop sample_env_hotels sample_both_intent
     [''H1'', ''H2'', ''H3'', ''H4'', ''H5'', ''H6''] [] =
     (Inr [sample_hotel, sample_hotel, sample_hotel, sample_hotel, sample_hotel],
      [OfferRequest ''H1'', BackoffSleep, OfferRequest ''H2'', OfferRequest ''H3'',
       OfferRequest ''H4''])"
  by (simp add: offers_loop_Cons sample_hotel_outcomes sample_rate_limit_text
      del: offers_loop.simps)

section \<open>The claims\<close>

text \<open>
  Claim C1.  The intent that leaves \<^verbatim>\<open>intent_node\<close> is complete: when its tag is
  \<^verbatim>\<open>flight_search\<close>, \<^verbatim>\<open>hotel_search\<close> or \<^verbatim>\<open>both\<close>, the fields required for that tag are
  set (not \<^verbatim>\<open>None\<close> and not empty).  The tag is the extracted one or \<^verbatim>\<open>clarify\<close>, and an
  intent that misses a required field after the hotel fix leaves as \<^verbatim>\<open>clarify\<close>.
\<close>

theorem validator_required_fields:
  "complete_intent (post_process env raw) \<and>
   (intent (post_process env raw) = intent raw \<or> intent (post_process env raw) = ''clarify'') \<and>
   (\<not> complete_intent (hotel_fix (intent raw) raw) \<longrightarrow>
      intent (post_process env raw) = ''clarify'') \<and>
   (llm_invoke env (build_context (conversation_history state)) (query state) = Some raw \<longrightarrow>
      intent_node env state = Some (state\<lparr>state_intent := Some (post_process env raw)\<rparr>))"
  using post_process_complete post_process_intent_cases post_process_incomplete intent_node_Some
  by blast

theorem validator_required_fields_witness:
  "intent (post_process sample_env sample_intent) = ''flight_search'' \<and>
   truthy (origin (post_process sample_env sample_intent)) \<and>
   truthy (destination (post_process sample_env sample_intent)) \<and>
   truthy (check_in (post_process sample_env sample_intent)) \<and>
   \<not> complete_intent (hotel_fix (intent (sample_intent\<lparr>origin := None\<rparr>))
                         (sample_intent\<lparr>origin := None\<rparr>)) \<and>
   intent (post_process sample_env (sample_intent\<lparr>origin := None\<rparr>)) = ''clarify'' \<and>
   llm_invoke sample_env (build_context (conversation_history sample_state)) (query sample_state)
     = Some sample_intent \<and>
   intent_node sample_env sample_state =
     Some (sample_state\<lparr>state_intent := Some (post_process sample_env sample_intent)\<rparr>)"
proof -
  note t1 = validator_required_fields[of sample_env sample_intent sample_state]
  note t2 = validator_required_fields[of sample_env "sample_intent\<lparr>origin := None\<rparr>" sample_state]
  have a: "intent (post_process sample_env sample_intent) = ''flight_search''"
    unfolding sample_post_process by (simp add: sample_intent_def)
  have b: "\<not> complete_intent (hotel_fix (intent (sample_intent\<lparr>origin := None\<rparr>))
                         (sample_intent\<lparr>origin := None\<rparr>))"
    by (simp add: complete_intent_def hotel_fix_def sample_intent_def truthy_def)
  have c: "llm_invoke sample_env (build_context (conversation_history sample_state))
      (query sample_state) = Some sample_intent"
    by (simp add: sample_env_fields)
  from t1 a have "truthy (origin (post_process sample_env sample_intent)) \<and>
      truthy (destination (post_process sample_env sample_intent)) \<and>
      truthy (check_in (post_process sample_env sample_intent))"
    unfolding complete_intent_def by blast
  moreover from t2 b have "intent (post_process sample_env (sample_intent\<lparr>origin := None\<rparr>)) = ''clarify''"
    by blast
  moreover from t1 c have "intent_node sample_env sample_state =
     Some (sample_state\<lparr>state_intent := Some (post_process sample_env sample_intent)\<rparr>)"
    by blast
  ultimately show ?thesis using a b c by blast
qed

text \<open>
  Claim C2.  The claim is that after a hard (non-outage) error of the flight provider
  on a flight search the final response is the error text of the flight step, the
  synthesis giving its "no results" message only when no response was produced.
  On the code the run goes from the flight step to the synthesis, which looks at the
  flights and the hotels only: for the sample request with a provider that raises a
  hard error (code 477, status 400), the flight step sets the response
  "Flight search error: [400]" and the final response is
  "No results available for your search.".
\<close>

theorem hard_error_response_replaced:
  "fst (run_agent (sample_env_raising hard_error) Map.empty sample_state) =
     [Intent, Flight_tool, Synthesis] \<and>
   response (fst (flight_tool (sample_env_raising hard_error) Map.empty
        (sample_state\<lparr>state_intent := Some sample_intent\<rparr>))) =
     Some ''Flight search error: [400]'' \<and>
   fst (snd (run_agent (sample_env_raising hard_error) Map.empty sample_state)) =
     Inr (sample_state\<lparr>state_intent := Some sample_intent, flights := Some [],
            response := Some ''No results available for your search.''\<rparr>)"
proof -
  let ?env = "sample_env_raising hard_error"
  let ?s1 = "sample_state\<lparr>state_intent := Some sample_intent\<rparr>"
  let ?s2 = "sample_state\<lparr>state_intent := Some sample_intent, flights := Some [],
        response := Some ''Flight search error: [400]''\<rparr>"
  have r: "router ?s1 = Flight_tool"
    by (simp add: router_def sample_intent_def)
  have f: "flight_tool_router ?s2 = Synthesis"
    by (simp add: flight_tool_router_def sample_state_def sample_intent_def)
  have s: "synthesis_node ?env Map.empty ?s2 =
      (Inr (sample_state\<lparr>state_intent := Some sample_intent, flights := Some [],
            response := Some ''No results available for your search.''\<rparr>), Map.empty)"
    by (simp add: synthesis_node_def sample_state_def)
  have run: "run_agent ?env Map.empty sample_state =
      ([Intent, Flight_tool, Synthesis],
       Inr (sample_state\<lparr>state_intent := Some sample_intent, flights := Some [],
            response := Some ''No results available for your search.''\<rparr>), Map.empty)"
    by (simp add: run_agent_unfold[OF sample_raising_intent_node] r run_from_Flight
        sample_hard_flight_tool f s Let_def)
  show ?thesis
    by (simp add: run sample_hard_flight_tool)
qed

text \<open>
  Claim C3, amended.  Let the flight provider raise a \<^verbatim>\<open>ResponseError\<close> on a state whose
  intent has origin, destination and check-in set.  The error is an outage when its
  first reported entry has the code 141 or the status 500 (exactly 500).  For an outage
  the flight step returns no flights and no response, sets the fallback flag, and sets
  the query to "flights from (origin city) to (destination city) on (date) price", where
  a city is the cached or looked-up name of the code and the code itself when the
  lookup fails, and the date is the long form of the check-in (the check-in text itself
  when it does not parse).  Every other provider error gives no flights and the
  response "Flight search error: " followed by the text of the error, and leaves the
  flag and the query as they were.
\<close>

theorem outage_arms_fallback:
  assumes "state_intent state = Some i"
    and "truthy (origin i)" and "truthy (destination i)" and "check_in i = Some s" and "s \<noteq> []"
    and "search_flights env (py_str (origin i)) (py_str (destination i)) s (travelers i)
           = RaisedResponseError e"
  shows "(is_outage e \<longleftrightarrow>
            (\<exists>first rest. errors e = first # rest \<and>
               (code first = Some 141 \<or> status first = Some 500))) \<and>
         (is_outage e \<longrightarrow>
            fst (flight_tool env cache state) =
              state\<lparr>flights := Some [], response := None, use_web_search := True,
                search_query := Some
                  (''flights from '' @ fst (get_city_name env cache (py_str (origin i))) @
                   '' to '' @
                   fst (get_city_name env (snd (get_city_name env cache (py_str (origin i))))
                          (py_str (destination i))) @
                   '' on '' @
                   (case fromisoformat env s of
                      Some date_obj \<Rightarrow> strftime env date_obj ''%B %d, %Y''
                    | None \<Rightarrow> s) @
                   '' price'')\<rparr>) \<and>
         (\<not> is_outage e \<longrightarrow>
            fst (flight_tool env cache state) =
              state\<lparr>flights := Some [],
                    response := Some (''Flight search error: '' @ error_str e)\<rparr> \<and>
            use_web_search (fst (flight_tool env cache state)) = use_web_search state \<and>
            search_query (fst (flight_tool env cache state)) = search_query state) \<and>
         (\<forall>c iata_code. fst (get_city_name env c iata_code) =
            (case c iata_code of
               Some city \<Rightarrow> city
             | None \<Rightarrow> (case get_location_info env iata_code of
                          Some city \<Rightarrow> city | None \<Rightarrow> iata_code)))"
proof -
  have t: "truthy (check_in i)" and p: "py_str (check_in i) = s"
    using assms(4,5) by (simp_all add: truthy_def py_str_def)
  have f: "flight_tool env cache state =
     (if is_outage e then outage_update env cache state i
      else (state\<lparr>flights := Some [], response := Some (''Flight search error: '' @ error_str e)\<rparr>,
            cache))"
    using assms(6) by (intro flight_tool_response_error assms(1,2,3) t) (simp add: p)
  show ?thesis
  proof (intro conjI impI allI)
    show "is_outage e \<longleftrightarrow>
            (\<exists>first rest. errors e = first # rest \<and>
               (code first = Some 141 \<or> status first = Some 500))"
      by (rule is_outage_iff)
  next
    assume "is_outage e"
    then show "fst (flight_tool env cache state) =
              state\<lparr>flights := Some [], response := None, use_web_search := True,
                search_query := Some
                  (''flights from '' @ fst (get_city_name env cache (py_str (origin i))) @
                   '' to '' @
                   fst (get_city_name env (snd (get_city_name env cache (py_str (origin i))))
                          (py_str (destination i))) @
                   '' on '' @
                   (case fromisoformat env s of
                      Some date_obj \<Rightarrow> strftime env date_obj ''%B %d, %Y''
                    | None \<Rightarrow> s) @
                   '' price'')\<rparr>"
      by (simp add: f outage_update_fst[OF assms(2,3,4)])
  next
    assume n: "\<not> is_outage e"
    then show "fst (flight_tool env cache state) =
              state\<lparr>flights := Some [],
                    response := Some (''Flight search error: '' @ error_str e)\<rparr>"
      by (simp add: f)
    from n show "use_web_search (fst (flight_tool env cache state)) = use_web_search state"
      by (simp add: f)
    from n show "search_query (fst (flight_tool env cache state)) = search_query state"
      by (simp add: f)
  next
    fix c iata_code
    show "fst (get_city_name env c iata_code) =
            (case c iata_code of
               Some city \<Rightarrow> city
             | None \<Rightarrow> (case get_location_info env iata_code of
                          Some city \<Rightarrow> city | None \<Rightarrow> iata_code))"
      by (rule get_city_name_fst)
  qed
qed

theorem outage_arms_fallback_witness:
  "state_intent (sample_state\<lparr>state_intent := Some sample_intent\<rparr>) = Some sample_intent \<and>
   truthy (origin sample_intent) \<and> truthy (destination sample_intent) \<and>
   check_in sample_intent = Some ''2030-03-15'' \<and>
   search_flights (sample_env_raising outage_error) (py_str (origin sample_intent))
     (py_str (destination sample_intent)) ''2030-03-15'' (travelers sample_intent)
     = RaisedResponseError outage_error \<and>
   is_outage outage_error \<and>
   fst (flight_tool (sample_env_raising outage_error) Map.empty
          (sample_state\<lparr>state_intent := Some sample_intent\<rparr>)) =
     sample_state\<lparr>state_intent := Some sample_intent, flights := Some [], response := None,
       use_web_search := True,
       search_query := Some ''flights from Mumbai to Delhi on March 15, 2030 price''\<rparr> \<and>
   search_flights (sample_env_raising hard_error) (py_str (origin sample_intent))
     (py_str (destination sample_intent)) ''2030-03-15'' (travelers sample_intent)
     = RaisedResponseError hard_error \<and>
   \<not> is_outage hard_error \<and>
   fst (flight_tool (sample_env_raising hard_error) Map.empty
          (sample_state\<lparr>state_intent := Some sample_intent\<rparr>)) =
     sample_state\<lparr>state_intent := Some sample_intent, flights := Some [],
       response := Some ''Flight search error: [400]''\<rparr>"
proof -
  let ?s1 = "sample_state\<lparr>state_intent := Some sample_intent\<rparr>"
  have h1: "state_intent ?s1 = Some sample_intent" by simp
  have h2: "truthy (origin sample_intent)" and h3: "truthy (destination sample_intent)"
    and h4: "check_in sample_intent = Some ''2030-03-15''" and h5: "''2030-03-15'' \<noteq> []"
    by (simp_all add: sample_intent_def truthy_def)
  have h6: "search_flights (sample_env_raising e) (py_str (origin sample_intent))
     (py_str (destination sample_intent)) ''2030-03-15'' (travelers sample_intent)
     = RaisedResponseError e" for e
    by (simp add: sample_raising_fields)
  note t1 = outage_arms_fallback[OF h1 h2 h3 h4 h5 h6, of outage_error Map.empty]
  note t2 = outage_arms_fallback[OF h1 h2 h3 h4 h5 h6, of hard_error Map.empty]
  have o1: "is_outage outage_error"
    by (simp add: is_outage_def outage_error_def)
  have o2: "\<not> is_outage hard_error"
    by (simp add: is_outage_def hard_error_def)
  have py: "py_str (origin sample_intent) = ''BOM''" "py_str (destination sample_intent) = ''DEL''"
    by (simp_all add: sample_intent_def py_str_def)
  from t1 have "is_outage outage_error \<longrightarrow>
      fst (flight_tool (sample_env_raising outage_error) Map.empty ?s1) =
      ?s1\<lparr>flights := Some [], response := None, use_web_search := True,
                search_query := Some
                  (''flights from '' @
                   fst (get_city_name (sample_env_raising outage_error) Map.empty
                         (py_str (origin sample_intent))) @
                   '' to '' @
                   fst (get_city_name (sample_env_raising outage_error)
                         (snd (get_city_name (sample_env_raising outage_error) Map.empty
                                (py_str (origin sample_intent))))
                          (py_str (destination sample_intent))) @
                   '' on '' @
                   (case fromisoformat (sample_env_raising outage_error) ''2030-03-15'' of
                      Some date_obj \<Rightarrow> strftime (sample_env_raising outage_error) date_obj ''%B %d, %Y''
                    | None \<Rightarrow> ''2030-03-15'') @
                   '' price'')\<rparr>"
    by (elim conjE) assumption
  from this o1 have "fst (flight_tool (sample_env_raising outage_error) Map.empty ?s1) =
      ?s1\<lparr>flights := Some [], response := None, use_web_search := True,
                search_query := Some
                  (''flights from '' @
                   fst (get_city_name (sample_env_raising outage_error) Map.empty
                         (py_str (origin sample_intent))) @
                   '' to '' @
                   fst (get_city_name (sample_env_raising outage_error)
                         (snd (get_city_name (sample_env_raising outage_error) Map.empty
                                (py_str (origin sample_intent))))
                          (py_str (destination sample_intent))) @
                   '' on '' @
                   (case fromisoformat (sample_env_raising outage_error) ''2030-03-15'' of
                      Some date_obj \<Rightarrow> strftime (sample_env_raising outage_error) date_obj ''%B %d, %Y''
                    | None \<Rightarrow> ''2030-03-15'') @
                   '' price'')\<rparr>"
    by (rule mp)
  then have r1: "fst (flight_tool (sample_env_raising outage_error) Map.empty ?s1) =
     sample_state\<lparr>state_intent := Some sample_intent, flights := Some [], response := None,
       use_web_search := True,
       search_query := Some ''flights from Mumbai to Delhi on March 15, 2030 price''\<rparr>"
    unfolding py sample_cities snd_conv fst_conv sample_raising_fields sample_dates option.case
      sample_long_date
    by simp
  from t2 have "\<not> is_outage hard_error \<longrightarrow>
      fst (flight_tool (sample_env_raising hard_error) Map.empty ?s1) =
        ?s1\<lparr>flights := Some [],
                    response := Some (''Flight search error: '' @ error_str hard_error)\<rparr> \<and>
      use_web_search (fst (flight_tool (sample_env_raising hard_error) Map.empty ?s1))
        = use_web_search ?s1 \<and>
      search_query (fst (flight_tool (sample_env_raising hard_error) Map.empty ?s1))
        = search_query ?s1"
    by (elim conjE) assumption
  from this o2 have "fst (flight_tool (sample_env_raising hard_error) Map.empty ?s1) =
        ?s1\<lparr>flights := Some [],
                    response := Some (''Flight search error: '' @ error_str hard_error)\<rparr> \<and>
      use_web_search (fst (flight_tool (sample_env_raising hard_error) Map.empty ?s1))
        = use_web_search ?s1 \<and>
      search_query (fst (flight_tool (sample_env_raising hard_error) Map.empty ?s1))
        = search_query ?s1"
    by (rule mp)
  then have r2: "fst (flight_tool (sample_env_raising hard_error) Map.empty ?s1) =
      ?s1\<lparr>flights := Some [],
                    response := Some (''Flight search error: '' @ error_str hard_error)\<rparr>"
    by (rule conjunct1)
  have r2': "fst (flight_tool (sample_env_raising hard_error) Map.empty ?s1) =
     sample_state\<lparr>state_intent := Some sample_intent, flights := Some [],
       response := Some ''Flight search error: [400]''\<rparr>"
    unfolding r2 by (simp add: hard_error_def)
  show ?thesis
    by (intro conjI) (rule h1 h2 h3 h4 h6 o1 r1 o2 r2')+
qed

text \<open>
  Claim C3 as stated fails for a status of the 500 class other than 500: an error whose
  first entry has the status 503 and no code 141 gives the plain error message, and
  the flag stays off.
\<close>

theorem status_503_not_outage:
  "outage_as_claimed unavailable_error \<and>
   fst (flight_tool (sample_env_raising unavailable_error) Map.empty
          (sample_state\<lparr>state_intent := Some sample_intent\<rparr>)) =
     sample_state\<lparr>state_intent := Some sample_intent, flights := Some [],
        response := Some ''Flight search error: [503]''\<rparr> \<and>
   \<not> use_web_search (fst (flight_tool (sample_env_raising unavailable_error) Map.empty
          (sample_state\<lparr>state_intent := Some sample_intent\<rparr>)))"
proof -
  have a: "outage_as_claimed unavailable_error"
    by (simp add: outage_as_claimed_def unavailable_error_def)
  have b: "flight_tool (sample_env_raising unavailable_error) Map.empty
      (sample_state\<lparr>state_intent := Some sample_intent\<rparr>) =
     (sample_state\<lparr>state_intent := Some sample_intent, flights := Some [],
        response := Some ''Flight search error: [503]''\<rparr>, Map.empty)"
    by (simp add: flight_tool_def sample_env_raising_def sample_intent_def truthy_def py_str_def
      is_outage_def unavailable_error_def)
  have c: "\<not> use_web_search (sample_state\<lparr>state_intent := Some sample_intent, flights := Some [],
        response := Some ''Flight search error: [503]''\<rparr>)"
    by (simp add: sample_state_def)
  show ?thesis
    unfolding b fst_conv using a c by (intro conjI) simp_all
qed

text \<open>
  Claim C4.  Whatever the tag of the extracted intent, when its check-in is set (the
  test of line 145: present and not empty) the guard decides the emitted intent: a
  check-in that parses to a date before today gives \<^verbatim>\<open>clarify\<close> with the reasoning
  "Check-in/departure date cannot be in the past", and one that does not parse gives
  \<^verbatim>\<open>clarify\<close> with the reasoning "Invalid date format. Please provide a valid date.".
\<close>

theorem past_date_guard_forces_clarify:
  assumes "check_in raw = Some s" and "s \<noteq> []"
  shows "(\<forall>dt. fromisoformat env s = Some dt \<and> date_ordinal env dt < today_ordinal env \<longrightarrow>
            intent (post_process env raw) = ''clarify'' \<and>
            reasoning (post_process env raw) = ''Check-in/departure date cannot be in the past'') \<and>
         (fromisoformat env s = None \<longrightarrow>
            intent (post_process env raw) = ''clarify'' \<and>
            reasoning (post_process env raw) = ''Invalid date format. Please provide a valid date.'')"
proof -
  let ?v = "strict_validation (intent raw) (hotel_fix (intent raw) raw)"
  have c: "check_in ?v = Some s"
    using assms(1) by (simp add: strict_validation_fields hotel_fix_check_in)
  have p: "post_process env raw = past_date_guard env ?v"
    by (simp add: post_process_def Let_def)
  show ?thesis
  proof (intro conjI allI impI)
    fix dt assume h: "fromisoformat env s = Some dt \<and> date_ordinal env dt < today_ordinal env"
    have "past_date_guard env ?v =
        ?v\<lparr>intent := ''clarify'', reasoning := ''Check-in/departure date cannot be in the past''\<rparr>"
      using past_date_guard_past[OF c assms(2) conjunct1[OF h] conjunct2[OF h]] .
    then show "intent (post_process env raw) = ''clarify''"
      and "reasoning (post_process env raw) = ''Check-in/departure date cannot be in the past''"
      by (simp_all add: p)
  next
    assume h: "fromisoformat env s = None"
    have "past_date_guard env ?v =
        ?v\<lparr>intent := ''clarify'', reasoning := ''Invalid date format. Please provide a valid date.''\<rparr>"
      using past_date_guard_invalid[OF c assms(2) h] .
    then show "intent (post_process env raw) = ''clarify''"
      and "reasoning (post_process env raw) = ''Invalid date format. Please provide a valid date.''"
      by (simp_all add: p)
  qed
qed

theorem past_date_guard_forces_clarify_witness:
  "check_in (sample_intent\<lparr>check_in := Some ''2020-02-10''\<rparr>) = Some ''2020-02-10'' \<and>
   fromisoformat sample_env ''2020-02-10'' =
     Some \<lparr>dt_year = 2020, dt_month = 2, dt_day = 10, dt_hour = 0, dt_minute = 0\<rparr> \<and>
   date_ordinal sample_env
     \<lparr>dt_year = 2020, dt_month = 2, dt_day = 10, dt_hour = 0, dt_minute = 0\<rparr>
     < today_ordinal sample_env \<and>
   intent (post_process sample_env (sample_intent\<lparr>check_in := Some ''2020-02-10''\<rparr>)) = ''clarify'' \<and>
   reasoning (post_process sample_env (sample_intent\<lparr>check_in := Some ''2020-02-10''\<rparr>))
     = ''Check-in/departure date cannot be in the past'' \<and>
   check_in (sample_intent\<lparr>intent := ''follow_up'', check_in := Some ''tomorrow''\<rparr>) = Some ''tomorrow'' \<and>
   fromisoformat sample_env ''tomorrow'' = None \<and>
   intent (post_process sample_env
      (sample_intent\<lparr>intent := ''follow_up'', check_in := Some ''tomorrow''\<rparr>)) = ''clarify'' \<and>
   reasoning (post_process sample_env
      (sample_intent\<lparr>intent := ''follow_up'', check_in := Some ''tomorrow''\<rparr>))
     = ''Invalid date format. Please provide a valid date.''"
proof -
  have a: "check_in (sample_intent\<lparr>check_in := Some ''2020-02-10''\<rparr>) = Some ''2020-02-10''"
    and a': "''2020-02-10'' \<noteq> []"
    and b: "check_in (sample_intent\<lparr>intent := ''follow_up'', check_in := Some ''tomorrow''\<rparr>)
        = Some ''tomorrow''"
    and b': "''tomorrow'' \<noteq> []"
    by simp_all
  have c: "fromisoformat sample_env ''2020-02-10'' =
     Some \<lparr>dt_year = 2020, dt_month = 2, dt_day = 10, dt_hour = 0, dt_minute = 0\<rparr>"
    and d: "date_ordinal sample_env
     \<lparr>dt_year = 2020, dt_month = 2, dt_day = 10, dt_hour = 0, dt_minute = 0\<rparr>
     < today_ordinal sample_env"
    and e: "fromisoformat sample_env ''tomorrow'' = None"
    by (simp_all add: sample_env_fields sample_dates sample_ordinals)
  note t1 = past_date_guard_forces_clarify[OF a a', of sample_env]
  note t2 = past_date_guard_forces_clarify[OF b b', of sample_env]
  from t1 c d have "intent (post_process sample_env (sample_intent\<lparr>check_in := Some ''2020-02-10''\<rparr>))
      = ''clarify'' \<and>
    reasoning (post_process sample_env (sample_intent\<lparr>check_in := Some ''2020-02-10''\<rparr>))
     = ''Check-in/departure date cannot be in the past''"
    by blast
  moreover from t2 e have "intent (post_process sample_env
      (sample_intent\<lparr>intent := ''follow_up'', check_in := Some ''tomorrow''\<rparr>)) = ''clarify'' \<and>
   reasoning (post_process sample_env
      (sample_intent\<lparr>intent := ''follow_up'', check_in := Some ''tomorrow''\<rparr>))
     = ''Invalid date format. Please provide a valid date.''"
    by blast
  ultimately show ?thesis using a b c d e by blast
qed

text \<open>
  Claim C5.  When the intent that leaves \<^verbatim>\<open>intent_node\<close> has the tag \<^verbatim>\<open>both\<close> and the
  flight step leaves the fallback flag off, the run visits the flight step, the hotel
  step and the synthesis, in this order.  When the flight step runs and leaves the flag
  on, the run goes from it to the web-search fallback and ends there, so the hotel step
  does not run; the post-flight router sends every state with the flag on to the
  fallback, whatever its intent.
\<close>

theorem both_runs_flight_then_hotel:
  assumes "intent_node env state0 = Some state1"
  shows "(\<forall>i. state_intent state1 = Some i \<and> intent i = ''both'' \<and>
              \<not> use_web_search (fst (flight_tool env cache state1)) \<longrightarrow>
            fst (run_agent env cache state0) = [Intent, Flight_tool, Hotel_tool, Synthesis]) \<and>
         (router state1 = Flight_tool \<and> use_web_search (fst (flight_tool env cache state1)) \<longrightarrow>
            fst (run_agent env cache state0) = [Intent, Flight_tool, Web_search_fallback]) \<and>
         (\<forall>state :: 'f agent_state. use_web_search state \<longrightarrow>
            flight_tool_router state = Web_search_fallback)"
proof (intro conjI allI impI)
  fix i
  assume a: "state_intent state1 = Some i \<and> intent i = ''both'' \<and>
              \<not> use_web_search (fst (flight_tool env cache state1))"
  then have r: "router state1 = Flight_tool"
    by (simp add: router_def)
  from a have f: "flight_tool_router (fst (flight_tool env cache state1)) = Hotel_tool"
    by (simp add: flight_tool_router_def flight_tool_intent)
  show "fst (run_agent env cache state0) = [Intent, Flight_tool, Hotel_tool, Synthesis]"
    by (simp add: run_agent_unfold[OF assms] r run_from_Flight f Let_def)
next
  assume a: "router state1 = Flight_tool \<and> use_web_search (fst (flight_tool env cache state1))"
  then have f: "flight_tool_router (fst (flight_tool env cache state1)) = Web_search_fallback"
    by (simp add: flight_tool_router_def)
  show "fst (run_agent env cache state0) = [Intent, Flight_tool, Web_search_fallback]"
    using a by (simp add: run_agent_unfold[OF assms] run_from_Flight f Let_def)
next
  fix state :: "'f agent_state"
  assume "use_web_search state"
  then show "flight_tool_router state = Web_search_fallback"
    by (simp add: flight_tool_router_def)
qed

theorem both_runs_flight_then_hotel_witness:
  "intent_node sample_env_both sample_state =
     Some (sample_state\<lparr>state_intent := Some sample_both_intent\<rparr>) \<and>
   intent sample_both_intent = ''both'' \<and>
   \<not> use_web_search (fst (flight_tool sample_env_both Map.empty
        (sample_state\<lparr>state_intent := Some sample_both_intent\<rparr>))) \<and>
   fst (run_agent sample_env_both Map.empty sample_state) =
     [Intent, Flight_tool, Hotel_tool, Synthesis] \<and>
   intent_node (sample_env_raising outage_error) sample_state =
     Some (sample_state\<lparr>state_intent := Some sample_intent\<rparr>) \<and>
   router (sample_state\<lparr>state_intent := Some sample_intent\<rparr>) = Flight_tool \<and>
   use_web_search (fst (flight_tool (sample_env_raising outage_error) Map.empty
        (sample_state\<lparr>state_intent := Some sample_intent\<rparr>))) \<and>
   fst (run_agent (sample_env_raising outage_error) Map.empty sample_state) =
     [Intent, Flight_tool, Web_search_fallback]"
proof -
  let ?s1 = "sample_state\<lparr>state_intent := Some sample_both_intent\<rparr>"
  let ?s2 = "sample_state\<lparr>state_intent := Some sample_intent\<rparr>"
  note t1 = both_runs_flight_then_hotel[OF sample_both_intent_node, of Map.empty]
  note t2 = both_runs_flight_then_hotel[OF sample_raising_intent_node, of outage_error Map.empty]
  have a: "intent sample_both_intent = ''both''"
    by (simp add: sample_both_intent_def)
  have b: "\<not> use_web_search (fst (flight_tool sample_env_both Map.empty ?s1))"
    unfolding sample_both_flight_tool by (simp add: sample_state_def)
  have c: "state_intent ?s1 = Some sample_both_intent"
    by simp
  have r: "router ?s2 = Flight_tool"
    by (simp add: router_def sample_intent_def)
  from t1 have "\<forall>i. state_intent ?s1 = Some i \<and> intent i = ''both'' \<and>
              \<not> use_web_search (fst (flight_tool sample_env_both Map.empty ?s1)) \<longrightarrow>
            fst (run_agent sample_env_both Map.empty sample_state)
              = [Intent, Flight_tool, Hotel_tool, Synthesis]"
    by (rule conjunct1)
  then have "state_intent ?s1 = Some sample_both_intent \<and> intent sample_both_intent = ''both'' \<and>
              \<not> use_web_search (fst (flight_tool sample_env_both Map.empty ?s1)) \<longrightarrow>
            fst (run_agent sample_env_both Map.empty sample_state)
              = [Intent, Flight_tool, Hotel_tool, Synthesis]"
    by (rule spec)
  with a b c have x: "fst (run_agent sample_env_both Map.empty sample_state)
              = [Intent, Flight_tool, Hotel_tool, Synthesis]"
    by (elim impE) (intro conjI, assumption+)
  from t2 have "router ?s2 = Flight_tool \<and>
      use_web_search (fst (flight_tool (sample_env_raising outage_error) Map.empty ?s2)) \<longrightarrow>
      fst (run_agent (sample_env_raising outage_error) Map.empty sample_state)
        = [Intent, Flight_tool, Web_search_fallback]"
    by (elim conjE) assumption
  with r sample_outage_flight_tool
  have y: "fst (run_agent (sample_env_raising outage_error) Map.empty sample_state)
        = [Intent, Flight_tool, Web_search_fallback]"
    by (elim impE) (intro conjI, assumption+)
  show ?thesis
    by (intro conjI)
      (rule sample_both_intent_node a b x sample_raising_intent_node r sample_outage_flight_tool y)+
qed

text \<open>
  Claim C6.  The hotel step asks for offers of the identifiers of the first 30 hotels
  only.  Its loop requests a first part of the identifier list, in order: before each
  request fewer than 5 offers are accumulated, the result is the accumulation of the
  offers of the requested hotels, and when identifiers are left over the result holds
  at least 5 offers.  A \<^verbatim>\<open>ResponseError\<close> of the provider for one hotel does not end the
  loop: the request is followed by the back-off sleep when the error text contains
  "429" and by nothing otherwise, and the loop goes on with the next identifier; when no
  request raises another exception the loop returns a list.  That list, when it is not
  empty, is what the step stores in \<^verbatim>\<open>hotels\<close>.
\<close>

theorem offer_requests_stop_at_quota:
  "length (hotel_ids hotels_data) \<le> 30 \<and>
   hotel_ids (take 30 hotels_data) = hotel_ids hotels_data \<and>
   (\<exists>k \<le> length ids.
      snd (offers_loop env i ids []) = concat (map (events_of env i) (take k ids)) \<and>
      (\<forall>j < k. length (concat (map (offers_of env i) (take j ids))) < 5) \<and>
      (\<forall>found. fst (offers_loop env i ids []) = Inr found \<longrightarrow>
         found = concat (map (offers_of env i) (take k ids)) \<and>
         (k < length ids \<longrightarrow> 5 \<le> length found)) \<and>
      (\<forall>msg. fst (offers_loop env i ids []) = Inl msg \<longrightarrow>
         0 < k \<and> offer_outcome env i (ids ! (k - 1)) = RaisedException msg)) \<and>
   ((\<forall>h \<in> set ids. \<not> raises_other env i h) \<longrightarrow>
      (\<exists>found. fst (offers_loop env i ids []) = Inr found)) \<and>
   (\<forall>state found. state_intent state = Some i \<and> truthy (destination i) \<and> truthy (check_in i) \<and>
      truthy (check_out i) \<and>
      search_hotels_by_city env (py_str (destination i)) = Returned hotels_data \<and>
      fst (offers_loop env i (hotel_ids hotels_data) []) = Inr found \<and> found \<noteq> [] \<longrightarrow>
      hotel_tool env state = state\<lparr>hotels := Some found\<rparr>)"
proof (intro conjI)
  show "length (hotel_ids hotels_data) \<le> 30" by (rule hotel_ids_length)
  show "hotel_ids (take 30 hotels_data) = hotel_ids hotels_data" by (rule hotel_ids_take)
  show "\<exists>k \<le> length ids.
      snd (offers_loop env i ids []) = concat (map (events_of env i) (take k ids)) \<and>
      (\<forall>j < k. length (concat (map (offers_of env i) (take j ids))) < 5) \<and>
      (\<forall>found. fst (offers_loop env i ids []) = Inr found \<longrightarrow>
         found = concat (map (offers_of env i) (take k ids)) \<and>
         (k < length ids \<longrightarrow> 5 \<le> length found)) \<and>
      (\<forall>msg. fst (offers_loop env i ids []) = Inl msg \<longrightarrow>
         0 < k \<and> offer_outcome env i (ids ! (k - 1)) = RaisedException msg)"
  proof (intro exI[where x = "requests_made env i ids []"] conjI allI impI)
    show "requests_made env i ids [] \<le> length ids" by (rule requests_made_le)
    show "snd (offers_loop env i ids []) =
        concat (map (events_of env i) (take (requests_made env i ids []) ids))"
      by (rule loop_events)
  next
    fix j assume "j < requests_made env i ids []"
    then show "length (concat (map (offers_of env i) (take j ids))) < 5"
      using below_quota[of "[]" j env i ids] by simp
  next
    fix found assume a: "fst (offers_loop env i ids []) = Inr found"
    from loop_result[OF a]
    show "found = concat (map (offers_of env i) (take (requests_made env i ids []) ids))"
      by simp
    assume "requests_made env i ids [] < length ids"
    with loop_result[OF a] show "5 \<le> length found" by auto
  next
    fix msg assume a: "fst (offers_loop env i ids []) = Inl msg"
    from loop_exception[OF a] show "0 < requests_made env i ids []"
      and "offer_outcome env i (ids ! (requests_made env i ids [] - 1)) = RaisedException msg"
      by simp_all
  qed
  show "(\<forall>h \<in> set ids. \<not> raises_other env i h) \<longrightarrow>
      (\<exists>found. fst (offers_loop env i ids []) = Inr found)"
    using loop_survives_response_errors by blast
  show "\<forall>state found. state_intent state = Some i \<and> truthy (destination i) \<and> truthy (check_in i) \<and>
      truthy (check_out i) \<and>
      search_hotels_by_city env (py_str (destination i)) = Returned hotels_data \<and>
      fst (offers_loop env i (hotel_ids hotels_data) []) = Inr found \<and> found \<noteq> [] \<longrightarrow>
      hotel_tool env state = state\<lparr>hotels := Some found\<rparr>"
    using hotel_tool_offers by blast
qed

theorem offer_requests_stop_at_quota_witness:
  "\<not> raises_other sample_env_hotels sample_both_intent ''H1'' \<and>
   \<not> raises_other sample_env_hotels sample_both_intent ''H2'' \<and>
   \<not> raises_other sample_env_hotels sample_both_intent ''H3'' \<and>
   \<not> raises_other sample_env_hotels sample_both_intent ''H4'' \<and>
   \<not> raises_other sample_env_hotels sample_both_intent ''H5'' \<and>
   \<not> raises_other sample_env_hotels sample_both_intent ''H6'' \<and>
   (\<exists>found. fst (offers_loop sample_env_hotels sample_both_intent
                    [''H1'', ''H2'', ''H3'', ''H4'', ''H5'', ''H6''] []) = Inr found) \<and>
   offers_loop sample_env_hotels sample_both_intent
     [''H1'', ''H2'', ''H3'', ''H4'', ''H5'', ''H6''] [] =
     (Inr [sample_hotel, sample_hotel, sample_hotel, sample_hotel, sample_hotel],
      [OfferRequest ''H1'', BackoffSleep, OfferRequest ''H2'', OfferRequest ''H3'',
       OfferRequest ''H4'']) \<and>
   concat (map (events_of sample_env_hotels sample_both_intent)
             (take 4 [''H1'', ''H2'', ''H3'', ''H4'', ''H5'', ''H6''])) =
     [OfferRequest ''H1'', BackoffSleep, OfferRequest ''H2'', OfferRequest ''H3'',
      OfferRequest ''H4''] \<and>
   length (concat (map (offers_of sample_env_hotels sample_both_intent)
             (take 3 [''H1'', ''H2'', ''H3'', ''H4'', ''H5'', ''H6'']))) < 5"
proof -
  let ?ids = "[''H1'', ''H2'', ''H3'', ''H4'', ''H5'', ''H6'']"
  note t = offer_requests_stop_at_quota[where env = sample_env_hotels and i = sample_both_intent
      and ids = ?ids and hotels_data = "[]"]
  have each:
    "\<not> raises_other sample_env_hotels sample_both_intent ''H1''"
    "\<not> raises_other sample_env_hotels sample_both_intent ''H2''"
    "\<not> raises_other sample_env_hotels sample_both_intent ''H3''"
    "\<not> raises_other sample_env_hotels sample_both_intent ''H4''"
    "\<not> raises_other sample_env_hotels sample_both_intent ''H5''"
    "\<not> raises_other sample_env_hotels sample_both_intent ''H6''"
    by (simp_all add: raises_other_def sample_hotel_outcomes)
  have n: "\<forall>h \<in> set ?ids. \<not> raises_other sample_env_hotels sample_both_intent h"
    using each by simp
  from t have "(\<forall>h \<in> set ?ids. \<not> raises_other sample_env_hotels sample_both_intent h) \<longrightarrow>
      (\<exists>found. fst (offers_loop sample_env_hotels sample_both_intent ?ids []) = Inr found)"
    by (elim conjE) assumption
  from this n have e: "\<exists>found. fst (offers_loop sample_env_hotels sample_both_intent ?ids []) = Inr found"
    by (rule mp)
  have ev: "concat (map (events_of sample_env_hotels sample_both_intent) (take 4 ?ids)) =
     [OfferRequest ''H1'', BackoffSleep, OfferRequest ''H2'', OfferRequest ''H3'',
      OfferRequest ''H4'']"
    by (simp add: events_of_def sample_hotel_outcomes sample_rate_limit_text)
  have q: "length (concat (map (offers_of sample_env_hotels sample_both_intent) (take 3 ?ids))) < 5"
    by (simp add: offers_of_def sample_hotel_outcomes)
  show ?thesis
    by (intro conjI) (rule each e sample_hotel_loop ev q)+
qed









text \<open>
  Claim C10.  Each downgrade (the three completeness checks and the past-date guard)
  changes at most the tag and the reasoning of the intent: origin, destination,
  check-in, check-out and travelers are the ones it was given.
\<close>

theorem downgrade_keeps_trip_fields:
  "flight_validation oi d = d\<lparr>intent := intent (flight_validation oi d),
                               reasoning := reasoning (flight_validation oi d)\<rparr> \<and>
   hotel_validation oi d = d\<lparr>intent := intent (hotel_validation oi d),
                              reasoning := reasoning (hotel_validation oi d)\<rparr> \<and>
   both_validation oi d = d\<lparr>intent := intent (both_validation oi d),
                             reasoning := reasoning (both_validation oi d)\<rparr> \<and>
   past_date_guard env d = d\<lparr>intent := intent (past_date_guard env d),
                              reasoning := reasoning (past_date_guard env d)\<rparr> \<and>
   same_trip_fields (flight_validation oi d) d \<and>
   same_trip_fields (hotel_validation oi d) d \<and>
   same_trip_fields (both_validation oi d) d \<and>
   same_trip_fields (past_date_guard env d) d \<and>
   same_trip_fields (past_date_guard env (strict_validation oi d)) d"
proof -
  have 1: "flight_validation oi d = d\<lparr>intent := intent (flight_validation oi d),
                               reasoning := reasoning (flight_validation oi d)\<rparr>"
    by (simp add: flight_validation_def force_clarify_def)
  have 2: "hotel_validation oi d = d\<lparr>intent := intent (hotel_validation oi d),
                              reasoning := reasoning (hotel_validation oi d)\<rparr>"
    by (simp add: hotel_validation_def force_clarify_def)
  have 3: "both_validation oi d = d\<lparr>intent := intent (both_validation oi d),
                             reasoning := reasoning (both_validation oi d)\<rparr>"
    by (simp add: both_validation_def force_clarify_def)
  have 4: "past_date_guard env d = d\<lparr>intent := intent (past_date_guard env d),
                              reasoning := reasoning (past_date_guard env d)\<rparr>"
    by (simp add: past_date_guard_def split: option.splits)
  have 5: "same_trip_fields (flight_validation oi d) d"
    by (simp add: same_trip_fields_def flight_validation_def force_clarify_fields)
  have 6: "same_trip_fields (hotel_validation oi d) d"
    by (simp add: same_trip_fields_def hotel_validation_def force_clarify_fields)
  have 7: "same_trip_fields (both_validation oi d) d"
    by (simp add: same_trip_fields_def both_validation_def force_clarify_fields)
  have 8: "same_trip_fields (past_date_guard env d) d"
    by (simp add: same_trip_fields_def past_date_guard_fields)
  have 9: "same_trip_fields (past_date_guard env (strict_validation oi d)) d"
    by (simp add: same_trip_fields_def past_date_guard_fields strict_validation_fields)
  from 1 2 3 4 5 6 7 8 9 show ?thesis by blast
qed

end
